theory Spec2Isabelle
  imports Main
begin

unbundle bit_operations_syntax

section \<open>Exceptions\<close>

text \<open>
  Every \<^verbatim>\<open>raise\<close> of the modelled code is a value \<open>Inl e\<close>. The exception class is the
  constructor of \<open>exn\<close>; the formatted message is kept as structured data (\<open>reason\<close>), with
  the values that the f-string interpolates as arguments.
\<close>

datatype reason =
    UndefinedSizeOrSign
  | OutOfRange int
  | CannotBeCastedAsInt
  | NotIntegerType
  | WidthExpected nat nat
  | NotSignlessResult
  | DifferingSigns
  | WidthMustBeExtended nat nat
  | CannotConvertIntoIntCtype
  | CannotFitIntoInt int nat
  | ExpectedPositivePyval int
  | IntTooLargeForFloat
  | NegativeShiftCount
  | DivisionByZero
  | NoSuchAttribute string
  | CtIsNotCTypeTreeType
  | MismatchInDepth
  | MismatchInLength
  | IncompatibleFieldValue
  | TooManyInitializers
  | NotCallableAsStructure
  | SMustBeStructure
  | CtMustBeCTypeTreeType
  | LengthMismatchFromStructure nat
  | TypeMismatchFromStructure
  | CalledBeforeCompiled string
  | WrongArgumentCount string nat nat
  | NotIterable
  | ReturnTypeNotSupported
  | ReturnTypesNotSupportsCType
  | ArgumentTypesNotSupportsCType
  | CanOnlyConcatenateTuple
  | TupleIndexOutOfRange
  | NoCorrespondingCtype
  | SymbolNotFound string

datatype exn =
    TypeError reason
  | ValueError reason
  | RuntimeError reason
  | OverflowError reason
  | ZeroDivisionError reason
  | AttributeError reason
  | IndexError reason

section \<open>Tuple trees\<close>

text \<open>
  \<^verbatim>\<open>CTypeTreeType\<close> and \<^verbatim>\<open>CTypeTree\<close> are nested Python tuples: a node is a tuple of
  nodes (\<open>Tup\<close>) or something that is not a tuple (\<open>Leaf\<close>): a ctypes type in a
  \<^verbatim>\<open>CTypeTreeType\<close>, a native scalar value in a \<^verbatim>\<open>CTypeTree\<close>.
\<close>

datatype 'a tree = Leaf 'a | Tup "'a tree list"

section \<open>type.py: the typed numeric values\<close>

subsection \<open>MLIR values and Python values\<close>

datatype Sign = SIGNED | UNSIGNED

text \<open>\<open>IntegerType w s\<close>: an MLIR integer type of width \<open>w\<close>; \<open>s\<close> is \<^verbatim>\<open>is_signless\<close>.\<close>

datatype mlir_type = IntegerType nat bool | IndexType | FloatType nat

text \<open>
  An \<^verbatim>\<open>mlir.ir.Value\<close>: the result of the operation that defines it. Only the operations
  that the modelled methods build are named; \<open>OtherValue\<close> is any other value of the given
  type.
\<close>

datatype mlir_value =
    ConstantOp mlir_type int
  | ExtSIOp mlir_type mlir_value
  | ExtUIOp mlir_type mlir_value
  | OtherValue mlir_type

fun value_type :: "mlir_value \<Rightarrow> mlir_type" where
  "value_type (ConstantOp t n) = t"
| "value_type (ExtSIOp t v) = t"
| "value_type (ExtUIOp t v) = t"
| "value_type (OtherValue t) = t"

text \<open>
  The Python objects handed to the constructors and to \<^verbatim>\<open>to_CType\<close>: an \<^verbatim>\<open>int\<close>, a
  \<^verbatim>\<open>bool\<close>, \<^verbatim>\<open>None\<close> (standing for any object that is neither a number nor an MLIR
  object), an MLIR \<^verbatim>\<open>Value\<close>, or an \<^verbatim>\<open>OpView\<close> given by its \<^verbatim>\<open>result\<close>. None of them
  has an \<^verbatim>\<open>Int\<close> or \<^verbatim>\<open>Bool\<close> method, so \<^verbatim>\<open>Supportable.__call__\<close> always takes the
  normal constructor for them. Python floats are outside the embedding.
\<close>

datatype pyval =
    PyInt int
  | PyBool bool
  | PyNone
  | PyValue mlir_value
  | PyOpView mlir_value

text \<open>\<^verbatim>\<open>int(pyval)\<close>; \<open>None\<close> when Python raises.\<close>

fun py_int :: "pyval \<Rightarrow> int option" where
  "py_int (PyInt n) = Some n"
| "py_int (PyBool b) = Some (if b then 1 else 0)"
| "py_int PyNone = None"
| "py_int (PyValue v) = None"
| "py_int (PyOpView v) = None"

text \<open>
  \<^verbatim>\<open>math.isclose(rep, int(rep))\<close> converts both arguments to a C double. For an \<^verbatim>\<open>int\<close>
  the two arguments are equal, so the answer is \<^verbatim>\<open>True\<close>, unless the conversion overflows
  (the integer rounds to a double beyond the largest finite one), which raises
  \<^verbatim>\<open>OverflowError\<close>.
\<close>

definition float_overflows :: "int \<Rightarrow> bool" where
  "float_overflows n = (2 ^ 1024 - 2 ^ 970 \<le> \<bar>n\<bar>)"

definition isclose_int :: "int \<Rightarrow> exn + bool" where
  "isclose_int n = (if float_overflows n then Inl (OverflowError IntTooLargeForFloat) else Inr True)"

subsection \<open>class Int\<close>

text \<open>
  A subclass of \<^verbatim>\<open>Int\<close> declared as \<^verbatim>\<open>class X(Int, width=w, sign=s)\<close>: its two class
  attributes, set by \<^verbatim>\<open>__init_subclass__\<close>. \<^verbatim>\<open>UInt8\<close> is \<open>\<lparr>width = 8, sign = UNSIGNED\<rparr>\<close>.
\<close>

record IntClass =
  width :: nat
  sign :: Sign

text \<open>An instance: its class and its \<^verbatim>\<open>value\<close> attribute (\<open>ivalue\<close>).\<close>

record IntInst =
  cls :: IntClass
  ivalue :: mlir_value

definition lower_class :: "IntClass \<Rightarrow> mlir_type" where
  "lower_class c = IntegerType (width c) True"

text \<open>
  \<^verbatim>\<open>val_range\<close>. \<^verbatim>\<open>1 << (cls.width - 1)\<close> raises \<^verbatim>\<open>ValueError\<close> (negative shift count)
  when the width is 0.
\<close>

definition val_range :: "IntClass \<Rightarrow> exn + (int \<times> int)" where
  "val_range c =
     (case sign c of
        SIGNED \<Rightarrow>
          (if width c = 0 then Inl (ValueError NegativeShiftCount)
           else Inr (- (2 ^ (width c - 1)), 2 ^ (width c - 1)))
      | UNSIGNED \<Rightarrow> Inr (0, 2 ^ width c - 2))"

definition in_range :: "IntClass \<Rightarrow> int \<Rightarrow> exn + bool" where
  "in_range c v =
     (case val_range c of
        Inl e \<Rightarrow> Inl e
      | Inr (lo, hi) \<Rightarrow> Inr (lo \<le> v \<and> v \<le> hi))"

definition init_from_mlir_value :: "IntClass \<Rightarrow> mlir_value \<Rightarrow> exn + IntInst" where
  "init_from_mlir_value c rep =
     (case value_type rep of
        IntegerType w signless \<Rightarrow>
          (if w \<noteq> width c then Inl (TypeError (WidthExpected (width c) w))
           else if \<not> signless then Inl (TypeError NotSignlessResult)
           else Inr \<lparr>cls = c, ivalue = rep\<rparr>)
      | _ \<Rightarrow> Inl (TypeError NotIntegerType))"

text \<open>
  The branch \<^verbatim>\<open>case numbers.Real() if math.isclose(rep, int(rep))\<close> of \<^verbatim>\<open>Int.__init__\<close>,
  for \<open>n = int(rep)\<close>.
\<close>

definition init_from_real :: "IntClass \<Rightarrow> int \<Rightarrow> exn + IntInst" where
  "init_from_real c n =
     (case isclose_int n of
        Inl e \<Rightarrow> Inl e
      | Inr close \<Rightarrow>
          (case in_range c n of
             Inl e \<Rightarrow> Inl e
           | Inr ok \<Rightarrow>
               (if \<not> ok then Inl (ValueError (OutOfRange n))
                else Inr \<lparr>cls = c, ivalue = ConstantOp (lower_class c) n\<rparr>)))"

text \<open>
  \<^verbatim>\<open>Int.__init__\<close>. \<^verbatim>\<open>all([self.width, self.sign])\<close> is false exactly when the width is 0
  (a member of the enum \<^verbatim>\<open>Sign\<close> is always true).
\<close>

definition Int_init :: "IntClass \<Rightarrow> pyval \<Rightarrow> exn + IntInst" where
  "Int_init c rep0 =
     (if width c = 0 then Inl (TypeError UndefinedSizeOrSign)
      else
        (let rep = (case rep0 of PyOpView r \<Rightarrow> PyValue r | _ \<Rightarrow> rep0) in
         case rep of
           PyInt n \<Rightarrow> init_from_real c n
         | PyBool b \<Rightarrow> init_from_real c (if b then 1 else 0)
         | PyValue v \<Rightarrow> init_from_mlir_value c v
         | _ \<Rightarrow> Inl (TypeError CannotBeCastedAsInt)))"

text \<open>
  \<^verbatim>\<open>cls._try_casting(val)\<close> is \<^verbatim>\<open>cls(val)\<close>; \<open>val\<close> is one of the Python objects above, for
  which the metaclass runs \<^verbatim>\<open>__init__\<close>.
\<close>

definition try_casting :: "IntClass \<Rightarrow> pyval \<Rightarrow> exn + IntInst" where
  "try_casting c v = Int_init c v"

text \<open>\<^verbatim>\<open>Int.Int(self, target_type)\<close>: the cast of an \<^verbatim>\<open>Int\<close> value to another \<^verbatim>\<open>Int\<close> class.\<close>

definition Int_Int :: "IntInst \<Rightarrow> IntClass \<Rightarrow> exn + IntInst" where
  "Int_Int self target_type =
     (if sign target_type \<noteq> sign (cls self) then Inl (TypeError DifferingSigns)
      else if width target_type < width (cls self)
        then Inl (TypeError (WidthMustBeExtended (width (cls self)) (width target_type)))
      else if width target_type = width (cls self)
        then try_casting target_type (PyValue (ivalue self))
      else
        (let new_val =
           (case sign (cls self) of
              SIGNED \<Rightarrow> ExtSIOp (lower_class target_type) (ivalue self)
            | UNSIGNED \<Rightarrow> ExtUIOp (lower_class target_type) (ivalue self))
         in try_casting target_type (PyOpView new_val)))"

text \<open>\<^verbatim>\<open>Int.to_CType\<close>: the host-side check of an argument; the result is the tuple \<^verbatim>\<open>(pyval,)\<close>.\<close>

definition Int_to_CType :: "IntClass \<Rightarrow> pyval \<Rightarrow> exn + int tree" where
  "Int_to_CType c pyval =
     (case py_int pyval of
        None \<Rightarrow> Inl (TypeError CannotConvertIntoIntCtype)
      | Some n \<Rightarrow>
          (if 2 ^ width c \<le> n then Inl (TypeError (CannotFitIntoInt n (width c)))
           else if sign c = UNSIGNED \<and> n < 0 then Inl (ValueError (ExpectedPositivePyval n))
           else Inr (Tup [Leaf n])))"

subsection \<open>class Bool\<close>

definition Bool :: IntClass where
  "Bool = \<lparr>width = 1, sign = UNSIGNED\<rparr>"

text \<open>\<^verbatim>\<open>Bool.__init__\<close>: a Python \<^verbatim>\<open>bool\<close> is a literal; anything else goes to \<^verbatim>\<open>Int.__init__\<close>.\<close>

definition Bool_init :: "pyval \<Rightarrow> exn + IntInst" where
  "Bool_init rep =
     (case rep of
        PyBool b \<Rightarrow> Inr \<lparr>cls = Bool, ivalue = ConstantOp (IntegerType 1 True) (if b then 1 else 0)\<rparr>
      | _ \<Rightarrow> Int_init Bool rep)"

subsection \<open>The \<^verbatim>\<open>SupportsCType\<close> methods of Int\<close>

datatype ctype =
    c_bool | c_int8 | c_int16 | c_int32 | c_int64
  | c_uint8 | c_uint16 | c_uint32 | c_uint64

definition ctypes_map :: "(Sign \<times> nat) \<rightharpoonup> ctype" where
  "ctypes_map = map_of
     [((SIGNED, 1), c_bool), ((SIGNED, 8), c_int8), ((SIGNED, 16), c_int16),
      ((SIGNED, 32), c_int32), ((SIGNED, 64), c_int64),
      ((UNSIGNED, 1), c_bool), ((UNSIGNED, 8), c_uint8), ((UNSIGNED, 16), c_uint16),
      ((UNSIGNED, 32), c_uint32), ((UNSIGNED, 64), c_uint64)]"

definition Int_CType :: "IntClass \<Rightarrow> exn + ctype tree" where
  "Int_CType c =
     (case ctypes_map (sign c, width c) of
        Some t \<Rightarrow> Inr (Tup [Leaf t])
      | None \<Rightarrow> Inl (TypeError NoCorrespondingCtype))"

text \<open>\<^verbatim>\<open>Int.from_CType\<close>: \<^verbatim>\<open>int(cval[0])\<close>.\<close>

definition Int_from_CType :: "int tree \<Rightarrow> exn + pyval" where
  "Int_from_CType cval =
     (case cval of
        Tup (Leaf n # rest) \<Rightarrow> Inr (PyInt n)
      | Tup (Tup ts # rest) \<Rightarrow> Inl (TypeError CannotConvertIntoIntCtype)
      | Tup [] \<Rightarrow> Inl (IndexError TupleIndexOutOfRange)
      | Leaf n \<Rightarrow> Inl (TypeError CannotConvertIntoIntCtype))"

subsection \<open>class Number\<close>

text \<open>
  A \<^verbatim>\<open>Number\<close> wraps a host value; the embedding covers the \<^verbatim>\<open>Number\<close>s that wrap a Python
  \<^verbatim>\<open>int\<close>. The result of a host operator on two \<^verbatim>\<open>int\<close>s is an \<^verbatim>\<open>int\<close>, a \<^verbatim>\<open>bool\<close>, the
  pair of \<^verbatim>\<open>divmod\<close>, or a float, which is kept as the unevaluated quotient or power.
\<close>

datatype number = Number int

datatype host =
    HInt int
  | HBool bool
  | HDivMod int int
  | HFloatQuot int int
  | HFloatPow int int

datatype host_op =
    operator_add | operator_sub | operator_mul | operator_truediv | operator_pow
  | builtin_divmod | operator_floordiv | operator_mod | operator_lshift | operator_rshift
  | operator_and | operator_xor | operator_or
  | operator_lt | operator_le | operator_ge | operator_gt

fun apply_op :: "host_op \<Rightarrow> int \<Rightarrow> int \<Rightarrow> exn + host" where
  "apply_op operator_add a b = Inr (HInt (a + b))"
| "apply_op operator_sub a b = Inr (HInt (a - b))"
| "apply_op operator_mul a b = Inr (HInt (a * b))"
| "apply_op operator_truediv a b =
     (if b = 0 then Inl (ZeroDivisionError DivisionByZero) else Inr (HFloatQuot a b))"
| "apply_op operator_pow a b =
     (if 0 \<le> b then Inr (HInt (a ^ nat b))
      else if a = 0 then Inl (ZeroDivisionError DivisionByZero)
      else Inr (HFloatPow a b))"
| "apply_op builtin_divmod a b =
     (if b = 0 then Inl (ZeroDivisionError DivisionByZero) else Inr (HDivMod (a div b) (a mod b)))"
| "apply_op operator_floordiv a b =
     (if b = 0 then Inl (ZeroDivisionError DivisionByZero) else Inr (HInt (a div b)))"
| "apply_op operator_mod a b =
     (if b = 0 then Inl (ZeroDivisionError DivisionByZero) else Inr (HInt (a mod b)))"
| "apply_op operator_lshift a b =
     (if b < 0 then Inl (ValueError NegativeShiftCount) else Inr (HInt (push_bit (nat b) a)))"
| "apply_op operator_rshift a b =
     (if b < 0 then Inl (ValueError NegativeShiftCount) else Inr (HInt (drop_bit (nat b) a)))"
| "apply_op operator_and a b = Inr (HInt (a AND b))"
| "apply_op operator_xor a b = Inr (HInt (a XOR b))"
| "apply_op operator_or a b = Inr (HInt (a OR b))"
| "apply_op operator_lt a b = Inr (HBool (a < b))"
| "apply_op operator_le a b = Inr (HBool (a \<le> b))"
| "apply_op operator_ge a b = Inr (HBool (a \<ge> b))"
| "apply_op operator_gt a b = Inr (HBool (a > b))"

datatype ret_type = RetNumber | RetBool

record BinNumberOp =
  ldunder_name :: string
  internal_op :: host_op
  rdunder_name :: string
  default_ret_type :: ret_type

definition BinNumberOp :: "string \<Rightarrow> host_op \<Rightarrow> string \<Rightarrow> ret_type \<Rightarrow> BinNumberOp" where
  "BinNumberOp l i r d = \<lparr>ldunder_name = l, internal_op = i, rdunder_name = r, default_ret_type = d\<rparr>"

text \<open>
  The table, in the order of the source text. It is a Python \<^verbatim>\<open>set\<close>: the loop that installs
  the methods visits it in an order that Python does not fix.
\<close>

definition bin_number_op :: "BinNumberOp list" where
  "bin_number_op =
     [BinNumberOp ''op_add'' operator_add ''op_radd'' RetNumber,
      BinNumberOp ''op_sub'' operator_sub ''op_rsub'' RetNumber,
      BinNumberOp ''op_mul'' operator_mul ''op_rmul'' RetNumber,
      BinNumberOp ''op_truediv'' operator_truediv ''op_rtruediv'' RetNumber,
      BinNumberOp ''op_pow'' operator_pow ''op_rpow'' RetNumber,
      BinNumberOp ''op_divmod'' builtin_divmod ''op_rdivmod'' RetNumber,
      BinNumberOp ''op_floordiv'' operator_floordiv ''op_rfloordiv'' RetNumber,
      BinNumberOp ''op_mod'' operator_mod ''op_rmod'' RetNumber,
      BinNumberOp ''op_lshift'' operator_lshift ''op_rlshift'' RetNumber,
      BinNumberOp ''op_rshift'' operator_rshift ''op_rrshift'' RetNumber,
      BinNumberOp ''op_and'' operator_and ''op_rand'' RetNumber,
      BinNumberOp ''op_xor'' operator_xor ''op_rxor'' RetNumber,
      BinNumberOp ''op_xor'' operator_or ''op_ror'' RetNumber,
      BinNumberOp ''op_lt'' operator_lt ''op_gt'' RetBool,
      BinNumberOp ''op_le'' operator_le ''op_ge'' RetBool,
      BinNumberOp ''op_eq'' operator_le ''op_eq'' RetBool,
      BinNumberOp ''op_ge'' operator_ge ''op_le'' RetBool,
      BinNumberOp ''op_gt'' operator_gt ''op_lt'' RetBool]"

text \<open>
  What a \<^verbatim>\<open>Number\<close> method returns: a \<^verbatim>\<open>Number\<close>, a \<^verbatim>\<open>Bool\<close>, or whatever the reflected
  method of a concrete right operand returned.
\<close>

datatype 'r number_result = ResNumber host | ResBool IntInst | ResReflected 'r

text \<open>
  The right operand: a \<^verbatim>\<open>Number\<close>, or a concrete typed value, given by its methods
  (\<^verbatim>\<open>getattr(rhs, name)\<close>).
\<close>

datatype 'r operand = RhsNumber number | RhsConcrete "string \<Rightarrow> (number \<Rightarrow> exn + 'r) option"

text \<open>
  \<^verbatim>\<open>default_ret_type(x)\<close>: \<^verbatim>\<open>Number(x)\<close> wraps \<open>x\<close>; \<^verbatim>\<open>Bool(x)\<close> constructs a \<^verbatim>\<open>Bool\<close>. In the
  table \<^verbatim>\<open>Bool\<close> goes with comparisons only, whose result is a \<^verbatim>\<open>bool\<close>; a tuple cannot be
  cast, and \<^verbatim>\<open>Bool\<close> of a float is outside the embedding (it is given the same error).
\<close>

fun construct_ret :: "ret_type \<Rightarrow> host \<Rightarrow> exn + 'r number_result" where
  "construct_ret RetNumber x = Inr (ResNumber x)"
| "construct_ret RetBool (HBool b) =
     (case Bool_init (PyBool b) of Inl e \<Rightarrow> Inl e | Inr i \<Rightarrow> Inr (ResBool i))"
| "construct_ret RetBool (HInt n) =
     (case Bool_init (PyInt n) of Inl e \<Rightarrow> Inl e | Inr i \<Rightarrow> Inr (ResBool i))"
| "construct_ret RetBool x = Inl (TypeError CannotBeCastedAsInt)"

text \<open>\<^verbatim>\<open>generic_bin_op\<close>, the method that \<^verbatim>\<open>method_gen(tup)\<close> returns.\<close>

definition generic_bin_op :: "BinNumberOp \<Rightarrow> number \<Rightarrow> 'r operand \<Rightarrow> exn + 'r number_result" where
  "generic_bin_op tup self rhs =
     (case rhs of
        RhsNumber r \<Rightarrow>
          (case (self, r) of
             (Number a, Number b) \<Rightarrow>
               (case apply_op (internal_op tup) a b of
                  Inl e \<Rightarrow> Inl e
                | Inr x \<Rightarrow> construct_ret (default_ret_type tup) x))
      | RhsConcrete methods \<Rightarrow>
          (case methods (rdunder_name tup) of
             None \<Rightarrow> Inl (AttributeError (NoSuchAttribute (rdunder_name tup)))
           | Some m \<Rightarrow> (case m self of Inl e \<Rightarrow> Inl e | Inr x \<Rightarrow> Inr (ResReflected x))))"

text \<open>
  The loop \<^verbatim>\<open>for tup in bin_number_op: setattr(Number, ldunder_name, method_gen(tup))\<close>, for
  the order \<open>order\<close> in which the set is visited: the attribute table of \<^verbatim>\<open>Number\<close>, each
  method given by its tuple. A later \<^verbatim>\<open>setattr\<close> of the same name replaces the earlier one.
\<close>

definition Number_methods :: "BinNumberOp list \<Rightarrow> (string \<rightharpoonup> BinNumberOp)" where
  "Number_methods order = fold (\<lambda>tup attrs. attrs(ldunder_name tup \<mapsto> tup)) order Map.empty"

text \<open>\<^verbatim>\<open>getattr(self, name)(rhs)\<close> for a \<^verbatim>\<open>Number\<close> \<open>self\<close>.\<close>

definition Number_call ::
  "BinNumberOp list \<Rightarrow> string \<Rightarrow> number \<Rightarrow> 'r operand \<Rightarrow> exn + 'r number_result" where
  "Number_call order name self rhs =
     (case Number_methods order name of
        None \<Rightarrow> Inl (AttributeError (NoSuchAttribute name))
      | Some tup \<Rightarrow> generic_bin_op tup self rhs)"

section \<open>frontend.py: tuple trees and ctypes Structures\<close>

subsection \<open>Structure types and instances\<close>

text \<open>
  What \<^verbatim>\<open>CTypeTreeType_to_Structure\<close> returns: a ctypes type taken from a leaf (\<open>Prim\<close>), or
  the class \<^verbatim>\<open>AnonymousStructure\<close> created for a tuple (\<open>StructT\<close>). The function is
  memoised with \<^verbatim>\<open>@cache\<close>, so there is one class object for each tuple it was created
  from: a class is identified by that tuple, kept as the first argument. The second argument
  is the list of the types in \<^verbatim>\<open>_fields_\<close>; a field's name is \<^verbatim>\<open>anonymous_field_i\<close> for
  its position \<open>i\<close>.
\<close>

datatype 'c stype = Prim 'c | StructT "'c tree" "'c stype list"

text \<open>
  An instance of such a class: the tuple that identifies its class, and its fields in
  order. A field of a ctypes type holds a Python value (read by \<^verbatim>\<open>getattr\<close> as a plain
  value); a field of a Structure type holds an instance of that class. Storing a value in
  a scalar field is taken to keep it unchanged: the conversions that ctypes applies (wrapping
  an integer to the field's width, rounding a float) are outside the embedding.
\<close>

datatype ('c, 'v) Structure = Structure "'c tree" "('c, 'v) cfield list"
  and ('c, 'v) cfield = Scalar 'c 'v | Nested "('c, 'v) Structure"

text \<open>A Python object that is a plain value or an instance of \<^verbatim>\<open>ctypes.Structure\<close>.\<close>

datatype ('c, 'v) cvalue = Plain 'v | Struct "('c, 'v) Structure"

primrec class_of :: "('c, 'v) Structure \<Rightarrow> 'c stype"
  and field_type :: "('c, 'v) cfield \<Rightarrow> 'c stype" where
  "class_of (Structure key fs) = StructT key (map field_type fs)"
| "field_type (Scalar c v) = Prim c"
| "field_type (Nested s) = class_of s"

text \<open>A list comprehension whose body may raise: the first exception ends it.\<close>

primrec mapM_sum :: "('a \<Rightarrow> 'e + 'b) \<Rightarrow> 'a list \<Rightarrow> 'e + 'b list" where
  "mapM_sum f [] = Inr []"
| "mapM_sum f (x # xs) =
     (case f x of
        Inl e \<Rightarrow> Inl e
      | Inr y \<Rightarrow> (case mapM_sum f xs of Inl e \<Rightarrow> Inl e | Inr ys \<Rightarrow> Inr (y # ys)))"

lemma mapM_sum_cong [fundef_cong]:
  "xs = ys \<Longrightarrow> (\<And>x. x \<in> set ys \<Longrightarrow> f x = g x) \<Longrightarrow> mapM_sum f xs = mapM_sum g ys"
  by (induction ys arbitrary: xs) (auto split: sum.splits)

subsection \<open>\<^verbatim>\<open>CTypeTreeType_to_Structure\<close>\<close>

fun CTypeTreeType_to_Structure :: "'c tree \<Rightarrow> exn + 'c stype" where
  "CTypeTreeType_to_Structure (Leaf c) = Inl (TypeError CtIsNotCTypeTreeType)"
| "CTypeTreeType_to_Structure (Tup [t]) =
     (case t of Tup us \<Rightarrow> CTypeTreeType_to_Structure t | Leaf c \<Rightarrow> Inr (Prim c))"
| "CTypeTreeType_to_Structure (Tup ct) =
     (case mapM_sum (\<lambda>t. case t of Tup us \<Rightarrow> CTypeTreeType_to_Structure t | Leaf c \<Rightarrow> Inr (Prim c)) ct of
        Inl e \<Rightarrow> Inl e
      | Inr ct_recursive \<Rightarrow> Inr (StructT (Tup ct) ct_recursive))"

subsection \<open>Creating an instance\<close>

text \<open>
  \<^verbatim>\<open>K(*args)\<close> for a Structure class \<open>K\<close>, as ctypes does it: more arguments than fields is
  an error; the arguments are stored in the fields in order; the fields that are left keep
  the zero of their type (\<open>z\<close> gives the zero of a ctypes type). A field of a Structure type
  accepts an instance of exactly that class, a field of a ctypes type a plain value.
\<close>

primrec zero_field :: "('c \<Rightarrow> 'v) \<Rightarrow> 'c stype \<Rightarrow> ('c, 'v) cfield" where
  "zero_field z (Prim c) = Scalar c (z c)"
| "zero_field z (StructT key fts) = Nested (Structure key (map (zero_field z) fts))"

fun set_field :: "'c stype \<Rightarrow> ('c, 'v) cvalue \<Rightarrow> exn + ('c, 'v) cfield" where
  "set_field (Prim c) (Plain v) = Inr (Scalar c v)"
| "set_field (StructT key fts) (Struct s) =
     (if class_of s = StructT key fts then Inr (Nested s) else Inl (TypeError IncompatibleFieldValue))"
| "set_field ft a = Inl (TypeError IncompatibleFieldValue)"

fun init_fields :: "('c \<Rightarrow> 'v) \<Rightarrow> 'c stype list \<Rightarrow> ('c, 'v) cvalue list \<Rightarrow> exn + ('c, 'v) cfield list" where
  "init_fields z fts [] = Inr (map (zero_field z) fts)"
| "init_fields z [] (a # as) = Inl (TypeError TooManyInitializers)"
| "init_fields z (ft # fts) (a # as) =
     (case set_field ft a of
        Inl e \<Rightarrow> Inl e
      | Inr f \<Rightarrow> (case init_fields z fts as of Inl e \<Rightarrow> Inl e | Inr fs \<Rightarrow> Inr (f # fs)))"

text \<open>
  The modelled code calls only Structure classes (lemmas \<open>CTypeTreeType_to_Structure_Tup\<close>
  and \<open>stype_of_StructT\<close> below); the first branch is there to make the function total.
\<close>

definition instantiate :: "('c \<Rightarrow> 'v) \<Rightarrow> 'c stype \<Rightarrow> ('c, 'v) cvalue list \<Rightarrow> exn + ('c, 'v) cvalue" where
  "instantiate z K args =
     (case K of
        Prim c \<Rightarrow> Inl (TypeError NotCallableAsStructure)
      | StructT key fts \<Rightarrow>
          (if length fts < length args then Inl (TypeError TooManyInitializers)
           else (case init_fields z fts args of
                   Inl e \<Rightarrow> Inl e
                 | Inr fs \<Rightarrow> Inr (Struct (Structure key fs)))))"

subsection \<open>\<^verbatim>\<open>CTypeTree_to_Structure\<close>\<close>

lemma size_zip_left: "(t, v) \<in> set (zip ct c) \<Longrightarrow> size t < Suc (size_list size ct)"
  by (auto dest!: set_zip_leftD size_list_estimation' [where f = size and y = "size t"] simp: less_Suc_eq_le)

function (sequential) CTypeTree_to_Structure ::
  "('c \<Rightarrow> 'v) \<Rightarrow> 'c tree \<Rightarrow> 'v tree \<Rightarrow> exn + ('c, 'v) cvalue" where
  "CTypeTree_to_Structure z (Tup ct) (Tup c) =
     (if length ct \<noteq> length c then Inl (TypeError MismatchInLength)
      else if length ct = 1 then
        (case (hd ct, hd c) of
           (Leaf t, Leaf v) \<Rightarrow> Inr (Plain v)
         | (t, v) \<Rightarrow> CTypeTree_to_Structure z t v)
      else
        (case mapM_sum (\<lambda>(t, v). case (t, v) of
                           (Leaf t', Leaf v') \<Rightarrow> Inr (Plain v')
                         | _ \<Rightarrow> CTypeTree_to_Structure z t v) (zip ct c) of
           Inl e \<Rightarrow> Inl e
         | Inr c_recursive \<Rightarrow>
             (case CTypeTreeType_to_Structure (Tup ct) of
                Inl e \<Rightarrow> Inl e
              | Inr K \<Rightarrow> instantiate z K c_recursive)))"
| "CTypeTree_to_Structure z ct c = Inl (TypeError MismatchInDepth)"
  by pat_completeness auto
termination
  apply (relation "measure (\<lambda>(z, ct, c). size ct)")
  subgoal by simp
  subgoal for z ct c by (cases ct) auto
  subgoal for z ct c by (cases ct) auto
  subgoal for z ct c by (auto dest!: size_zip_left)
  subgoal for z ct c by (auto dest!: size_zip_left)
  done

subsection \<open>\<^verbatim>\<open>CTypeTree_from_Structure\<close>\<close>

text \<open>
  The first loop, \<^verbatim>\<open>while len(ct) == 1: num_tuple_shell += 1; if isinstance(ct[0], tuple): ct = ct[0]\<close>.
  When \<^verbatim>\<open>ct[0]\<close> is not a tuple the loop changes nothing but the counter, and runs forever:
  the result is \<open>None\<close>.
\<close>

partial_function (option) strip_shell :: "'c tree list \<Rightarrow> nat \<Rightarrow> ('c tree list \<times> nat) option" where
  "strip_shell ct num_tuple_shell =
     (if length ct = 1 then
        (case hd ct of
           Tup ct' \<Rightarrow> strip_shell ct' (num_tuple_shell + 1)
         | Leaf t \<Rightarrow> strip_shell ct (num_tuple_shell + 1))
      else Some (ct, num_tuple_shell))"

text \<open>The loop for a member, \<^verbatim>\<open>while isinstance(t, tuple) and len(t) == 1: ...; t = t[0]\<close>.\<close>

fun strip_member :: "'c tree \<Rightarrow> nat \<Rightarrow> 'c tree \<times> nat" where
  "strip_member (Tup [t]) n = strip_member t (n + 1)"
| "strip_member t n = (t, n)"

text \<open>\<^verbatim>\<open>for _ in range(n): val = (val,)\<close>\<close>

fun add_shells :: "nat \<Rightarrow> 'v tree \<Rightarrow> 'v tree" where
  "add_shells 0 v = v"
| "add_shells (Suc n) v = add_shells n (Tup [v])"

text \<open>
  \<open>from_fields\<close> is the loop \<^verbatim>\<open>for t, (sname, st) in zip(ct, s._fields_)\<close>; the result
  \<open>None\<close> of either function means that the call does not return.
\<close>

function CTypeTree_from_Structure :: "'c tree \<Rightarrow> ('c, 'v) cvalue \<Rightarrow> (exn + 'v tree) option"
  and from_fields :: "'c tree list \<Rightarrow> ('c, 'v) cfield list \<Rightarrow> (exn + 'v tree list) option" where
  "CTypeTree_from_Structure ct (Plain v) = Some (Inl (TypeError SMustBeStructure))"
| "CTypeTree_from_Structure (Leaf t) (Struct s) = Some (Inl (TypeError CtMustBeCTypeTreeType))"
| "CTypeTree_from_Structure (Tup ct0) (Struct (Structure key fs)) =
     (case strip_shell ct0 0 of
        None \<Rightarrow> None
      | Some (ct, num_tuple_shell) \<Rightarrow>
          (if length ct \<noteq> length fs then Some (Inl (TypeError (LengthMismatchFromStructure (length fs))))
           else (case from_fields ct fs of
                   None \<Rightarrow> None
                 | Some (Inl e) \<Rightarrow> Some (Inl e)
                 | Some (Inr ret) \<Rightarrow> Some (Inr (add_shells num_tuple_shell (Tup ret))))))"
| "from_fields (t0 # ts) (f # fs) =
     (case strip_member t0 0 of
        (t, num_member_tuple_shell) \<Rightarrow>
          (case (case f of
                   Nested s \<Rightarrow> CTypeTree_from_Structure t (Struct s)
                 | Scalar st v \<Rightarrow>
                     (if t \<noteq> Leaf st then Some (Inl (TypeError TypeMismatchFromStructure))
                      else Some (Inr (Leaf v)))) of
             None \<Rightarrow> None
           | Some (Inl e) \<Rightarrow> Some (Inl e)
           | Some (Inr fval) \<Rightarrow>
               (case from_fields ts fs of
                  None \<Rightarrow> None
                | Some (Inl e) \<Rightarrow> Some (Inl e)
                | Some (Inr ret) \<Rightarrow> Some (Inr (add_shells num_member_tuple_shell fval # ret)))))"
| "from_fields [] fs = Some (Inr [])"
| "from_fields ts [] = Some (Inr [])"
  by pat_completeness auto
termination
  by (relation "measure (\<lambda>x. case x of Inl (ct, s) \<Rightarrow> size s | Inr (ts, fs) \<Rightarrow> size_list size fs)") auto

section \<open>frontend.py: calling a compiled function\<close>

subsection \<open>Signatures\<close>

text \<open>
  A type that implements the protocol \<^verbatim>\<open>SupportsCType\<close>, given by its three class methods.
  \<open>'p\<close> is the type of the host's Python values, \<open>'c\<close> of ctypes types, \<open>'v\<close> of the
  values at the leaves of a \<^verbatim>\<open>CTypeTree\<close>.
\<close>

record ('p, 'c, 'v) SupportsCType =
  CType :: "exn + 'c tree"
  to_CType :: "'p \<Rightarrow> exn + 'v tree"
  from_CType :: "'v tree \<Rightarrow> exn + 'p"

text \<open>
  An annotation is \<open>Some\<close> such type, or \<open>None\<close> for an object that is not an instance of
  the protocol. The return annotation is \<^verbatim>\<open>None\<close> or empty, a plain annotation, a
  \<^verbatim>\<open>tuple[...]\<close>, or another generic type.
\<close>

datatype ('p, 'c, 'v) ret_annotation =
    ReturnEmpty
  | ReturnPlain "('p, 'c, 'v) SupportsCType option"
  | ReturnTuple "('p, 'c, 'v) SupportsCType option list"
  | ReturnOther

text \<open>
  A decorated function with the signature that \<^verbatim>\<open>get_function_signature\<close> finds for it
  (the work of the external translation pass): its name and the annotations of its
  parameters and of its result.
\<close>

record ('p, 'c, 'v) Function =
  f_name :: string
  parameters :: "('p, 'c, 'v) SupportsCType option list"
  return_annotation :: "('p, 'c, 'v) ret_annotation"

definition get_return_type ::
  "('p, 'c, 'v) Function \<Rightarrow> exn + ('p, 'c, 'v) SupportsCType option list" where
  "get_return_type f =
     (case return_annotation f of
        ReturnEmpty \<Rightarrow> Inr []
      | ReturnPlain t \<Rightarrow> Inr [t]
      | ReturnTuple ts \<Rightarrow> Inr ts
      | ReturnOther \<Rightarrow> Inl (TypeError ReturnTypeNotSupported))"

text \<open>\<open>those ts\<close> is \<open>Some\<close> list exactly when every annotation is an instance of the protocol.\<close>

definition get_return_ctypes :: "('p, 'c, 'v) Function \<Rightarrow> exn + 'c tree list" where
  "get_return_ctypes f =
     (case get_return_type f of
        Inl e \<Rightarrow> Inl e
      | Inr ret_t \<Rightarrow>
          (case those ret_t of
             None \<Rightarrow> Inl (TypeError ReturnTypesNotSupportsCType)
           | Some ts \<Rightarrow> mapM_sum CType ts))"

definition get_args_ctypes :: "('p, 'c, 'v) Function \<Rightarrow> exn + 'c tree list" where
  "get_args_ctypes f =
     (case those (parameters f) of
        None \<Rightarrow> Inl (TypeError ArgumentTypesNotSupportsCType)
      | Some ts \<Rightarrow> mapM_sum CType ts)"

text \<open>\<^verbatim>\<open>sum(x, ())\<close>: the concatenation of the tuples in \<open>x\<close>; an element that is not a tuple raises.\<close>

fun sum_tuples :: "'c tree list \<Rightarrow> exn + 'c tree list" where
  "sum_tuples [] = Inr []"
| "sum_tuples (Tup ts # rest) =
     (case sum_tuples rest of Inl e \<Rightarrow> Inl e | Inr flattened \<Rightarrow> Inr (ts @ flattened))"
| "sum_tuples (Leaf c # rest) = Inl (TypeError CanOnlyConcatenateTuple)"

definition has_composite_return :: "('p, 'c, 'v) Function \<Rightarrow> exn + bool" where
  "has_composite_return f =
     (case get_return_ctypes f of
        Inl e \<Rightarrow> Inl e
      | Inr cts \<Rightarrow>
          (case sum_tuples cts of Inl e \<Rightarrow> Inl e | Inr flattened \<Rightarrow> Inr (length flattened > 1)))"

definition has_void_return :: "('p, 'c, 'v) Function \<Rightarrow> exn + bool" where
  "has_void_return f =
     (case get_return_ctypes f of
        Inl e \<Rightarrow> Inl e
      | Inr cts \<Rightarrow>
          (case sum_tuples cts of Inl e \<Rightarrow> Inl e | Inr flattened \<Rightarrow> Inr (length flattened = 0)))"

subsection \<open>The native function\<close>

text \<open>
  The code behind a symbol of the shared library: from the arguments it is called with, the
  value it returns and the arguments as it leaves them (a Structure is passed by pointer, so
  the callee may write to it). The conversion of the arguments by ctypes according to
  \<^verbatim>\<open>argtypes\<close> is outside the embedding.
\<close>

type_synonym ('c, 'v) native = "('c, 'v) cvalue list \<Rightarrow> 'v \<times> ('c, 'v) cvalue list"

text \<open>
  A compilation target: \<open>so\<close> is \<open>None\<close> as long as the attribute \<^verbatim>\<open>_so\<close> is not set, and
  the symbols of the library that \<^verbatim>\<open>build\<close> produced afterwards.
\<close>

record ('c, 'v) CTarget =
  so :: "(string \<rightharpoonup> ('c, 'v) native) option"

text \<open>A type in \<^verbatim>\<open>restype\<close> or \<^verbatim>\<open>argtypes\<close>: a type as it is, or \<^verbatim>\<open>POINTER\<close> of a Structure class.\<close>

datatype 'c ffi_type = ByValue "'c stype" | POINTER "'c stype"

text \<open>\<^verbatim>\<open>POINTER(t) if issubclass(t, Structure) else t\<close>\<close>

definition by_pointer_if_Structure :: "'c stype \<Rightarrow> 'c ffi_type" where
  "by_pointer_if_Structure t = (case t of StructT key fts \<Rightarrow> POINTER t | Prim c \<Rightarrow> ByValue t)"

record ('c, 'v) so_f =
  restype :: "'c ffi_type option"
  argtypes :: "'c ffi_type list"
  entry :: "('c, 'v) native"

definition load_function ::
  "('c, 'v) CTarget \<Rightarrow> ('p, 'c, 'v) Function \<Rightarrow> exn + ('c, 'v) so_f" where
  "load_function self f =
     (case get_return_ctypes f of
        Inl e \<Rightarrow> Inl e
      | Inr ret_ctypes \<Rightarrow>
     (case CTypeTreeType_to_Structure (Tup ret_ctypes) of
        Inl e \<Rightarrow> Inl e
      | Inr ret_struct \<Rightarrow>
     (case get_args_ctypes f of
        Inl e \<Rightarrow> Inl e
      | Inr args_ctypes \<Rightarrow>
     (case mapM_sum CTypeTreeType_to_Structure args_ctypes of
        Inl e \<Rightarrow> Inl e
      | Inr args_struct \<Rightarrow>
     (case so self of
        None \<Rightarrow> Inl (AttributeError (NoSuchAttribute ''_so''))
      | Some loaded_so \<Rightarrow>
     (case loaded_so (''_mlir_ciface_'' @ f_name f) of
        None \<Rightarrow> Inl (AttributeError (SymbolNotFound (''_mlir_ciface_'' @ f_name f)))
      | Some code \<Rightarrow>
     (case has_composite_return f of
        Inl e \<Rightarrow> Inl e
      | Inr composite \<Rightarrow>
          (if composite
           then Inr \<lparr>restype = None,
                     argtypes = by_pointer_if_Structure ret_struct
                                  # map by_pointer_if_Structure args_struct,
                     entry = code\<rparr>
           else Inr \<lparr>restype = Some (by_pointer_if_Structure ret_struct),
                     argtypes = map by_pointer_if_Structure args_struct,
                     entry = code\<rparr>))))))))"

subsection \<open>\<^verbatim>\<open>CTarget.call_function\<close>\<close>

definition val_to_CType :: "('p, 'c, 'v) SupportsCType option \<Rightarrow> 'p \<Rightarrow> exn + 'v tree" where
  "val_to_CType typ v =
     (case typ of
        None \<Rightarrow> Inl (AttributeError (NoSuchAttribute ''to_CType''))
      | Some t \<Rightarrow> to_CType t v)"

definition val_from_CType :: "('p, 'c, 'v) SupportsCType option \<Rightarrow> 'v tree \<Rightarrow> exn + 'p" where
  "val_from_CType typ v =
     (case typ of
        None \<Rightarrow> Inl (AttributeError (NoSuchAttribute ''from_CType''))
      | Some t \<Rightarrow> from_CType t v)"

text \<open>The two comprehensions \<^verbatim>\<open>mapped_args_ct\<close> and \<^verbatim>\<open>mapped_args\<close>.\<close>

definition marshal_args ::
  "('c \<Rightarrow> 'v) \<Rightarrow> ('p, 'c, 'v) Function \<Rightarrow> 'p list \<Rightarrow> exn + ('c, 'v) cvalue list" where
  "marshal_args z f args =
     (case get_args_ctypes f of
        Inl e \<Rightarrow> Inl e
      | Inr args_ctypes \<Rightarrow>
          (case mapM_sum (\<lambda>(ct, typ, a).
                   case val_to_CType typ a of Inl e \<Rightarrow> Inl e | Inr c \<Rightarrow> Inr (ct, c))
                 (zip args_ctypes (zip (parameters f) args)) of
             Inl e \<Rightarrow> Inl e
           | Inr mapped_args_ct \<Rightarrow>
               mapM_sum (\<lambda>(ct, c). CTypeTree_to_Structure z ct c) mapped_args_ct))"

text \<open>What \<^verbatim>\<open>call_function\<close> returns: \<^verbatim>\<open>None\<close>, one value, or a tuple of values.\<close>

datatype 'p pyresult = ResultNone | ResultValue 'p | ResultTuple "'p list"

text \<open>
  The end of \<^verbatim>\<open>call_function\<close> for a composite return, after the native call: the return
  Structure is converted to a tuple tree, and each member to a Python value.
\<close>

definition read_return ::
  "('p, 'c, 'v) Function \<Rightarrow> 'c tree list \<Rightarrow> ('c, 'v) cvalue \<Rightarrow> (exn + 'p pyresult) option" where
  "read_return f ret_ctypes retval =
     (case CTypeTree_from_Structure (Tup ret_ctypes) retval of
        None \<Rightarrow> None
      | Some (Inl e) \<Rightarrow> Some (Inl e)
      | Some (Inr retval_ct) \<Rightarrow>
          Some (case get_return_type f of
                  Inl e \<Rightarrow> Inl e
                | Inr ret_t \<Rightarrow>
                    (case retval_ct of
                       Leaf x \<Rightarrow> Inl (TypeError NotIterable)
                     | Tup cts \<Rightarrow>
                         (case mapM_sum (\<lambda>(t, ct). val_from_CType t ct) (zip ret_t cts) of
                            Inl e \<Rightarrow> Inl e
                          | Inr vals \<Rightarrow> Inr (ResultTuple vals)))))"

text \<open>
  \<^verbatim>\<open>call_function\<close>. The result is a pair: what the call returns or raises (\<open>None\<close> when it
  does not return), and the native calls it made, each given by its list of arguments.
  \<open>z\<close> gives the zero of a ctypes type, for the fields of a new Structure.
\<close>

definition call_function ::
  "('c \<Rightarrow> 'v) \<Rightarrow> ('c, 'v) CTarget \<Rightarrow> ('p, 'c, 'v) Function \<Rightarrow> 'p list
     \<Rightarrow> (exn + 'p pyresult) option \<times> ('c, 'v) cvalue list list" where
  "call_function z self f args =
     (case so self of
        None \<Rightarrow> (Some (Inl (RuntimeError (CalledBeforeCompiled (f_name f)))), [])
      | Some library \<Rightarrow>
     (case load_function self f of
        Inl e \<Rightarrow> (Some (Inl e), [])
      | Inr so_f \<Rightarrow>
     (if length (parameters f) \<noteq> length args
      then (Some (Inl (TypeError
              (WrongArgumentCount (f_name f) (length (parameters f)) (length args)))), [])
      else
     (case marshal_args z f args of
        Inl e \<Rightarrow> (Some (Inl e), [])
      | Inr mapped_args \<Rightarrow>
     (case has_void_return f of
        Inl e \<Rightarrow> (Some (Inl e), [])
      | Inr void \<Rightarrow>
     (if void then (Some (Inr ResultNone), [mapped_args])
      else
     (case has_composite_return f of
        Inl e \<Rightarrow> (Some (Inl e), [])
      | Inr composite \<Rightarrow>
     (if \<not> composite then
        (case get_return_type f of
           Inl e \<Rightarrow> (Some (Inl e), [])
         | Inr [] \<Rightarrow> (Some (Inl (IndexError TupleIndexOutOfRange)), [])
         | Inr (t # ts) \<Rightarrow>
             (case val_from_CType t (Tup [Leaf (fst (entry so_f mapped_args))]) of
                Inl e \<Rightarrow> (Some (Inl e), [mapped_args])
              | Inr v \<Rightarrow> (Some (Inr (ResultValue v)), [mapped_args])))
      else
        (case get_return_ctypes f of
           Inl e \<Rightarrow> (Some (Inl e), [])
         | Inr ret_ctypes \<Rightarrow>
        (case CTypeTreeType_to_Structure (Tup ret_ctypes) of
           Inl e \<Rightarrow> (Some (Inl e), [])
         | Inr K \<Rightarrow>
        (case instantiate z K [] of
           Inl e \<Rightarrow> (Some (Inl e), [])
         | Inr retval \<Rightarrow>
             (let written = (case snd (entry so_f (retval # mapped_args)) of
                               [] \<Rightarrow> retval
                             | r # rest \<Rightarrow> r)
              in (read_return f ret_ctypes written, [retval # mapped_args])))))))))))))"

text \<open>The classes of \<^verbatim>\<open>Int\<close> as implementations of the protocol.\<close>

definition Int_SupportsCType :: "IntClass \<Rightarrow> (pyval, ctype, int) SupportsCType" where
  "Int_SupportsCType c = \<lparr>CType = Int_CType c, to_CType = Int_to_CType c, from_CType = Int_from_CType\<rparr>"

subsection \<open>An example target\<close>

text \<open>
  Three functions of one parameter of type \<^verbatim>\<open>SInt32\<close>, returning nothing, an \<^verbatim>\<open>SInt32\<close>, and
  a pair of an \<^verbatim>\<open>SInt32\<close> and a \<^verbatim>\<open>UInt8\<close>; and a library whose code returns its argument
  plus 1, or writes that and 1 into the Structure it is given first.
\<close>

definition SInt32 :: IntClass where
  "SInt32 = \<lparr>width = 32, sign = SIGNED\<rparr>"

definition UInt8 :: IntClass where
  "UInt8 = \<lparr>width = 8, sign = UNSIGNED\<rparr>"

definition example_native :: "(ctype, int) native" where
  "example_native args =
     (case args of
        [Plain a] \<Rightarrow> (a + 1, [Plain a])
      | [Struct (Structure key fs), Plain a] \<Rightarrow>
          (0, [Struct (Structure key [Scalar c_int32 (a + 1), Scalar c_uint8 1]), Plain a])
      | _ \<Rightarrow> (0, args))"

definition example_target :: "(ctype, int) CTarget" where
  "example_target =
     \<lparr>so = Some [''_mlir_ciface_nothing'' \<mapsto> example_native,
                 ''_mlir_ciface_succ'' \<mapsto> example_native,
                 ''_mlir_ciface_pair'' \<mapsto> example_native]\<rparr>"

definition nothing_f :: "(pyval, ctype, int) Function" where
  "nothing_f = \<lparr>f_name = ''nothing'', parameters = [Some (Int_SupportsCType SInt32)],
                 return_annotation = ReturnEmpty\<rparr>"

definition succ_f :: "(pyval, ctype, int) Function" where
  "succ_f = \<lparr>f_name = ''succ'', parameters = [Some (Int_SupportsCType SInt32)],
              return_annotation = ReturnPlain (Some (Int_SupportsCType SInt32))\<rparr>"

definition pair_f :: "(pyval, ctype, int) Function" where
  "pair_f = \<lparr>f_name = ''pair'', parameters = [Some (Int_SupportsCType SInt32)],
              return_annotation =
                ReturnTuple [Some (Int_SupportsCType SInt32), Some (Int_SupportsCType UInt8)]\<rparr>"

text \<open>
  A type whose CType has two members, read back as their sum; a function of one \<^verbatim>\<open>SInt32\<close>
  parameter returning that type; and a library whose code writes its argument and its
  argument plus 1 into the Structure it is given first.
\<close>

definition Pair32_SupportsCType :: "(pyval, ctype, int) SupportsCType" where
  "Pair32_SupportsCType =
     \<lparr>CType = Inr (Tup [Leaf c_int32, Leaf c_int32]),
      to_CType = (\<lambda>p. case p of
                          PyInt n \<Rightarrow> Inr (Tup [Leaf n, Leaf 0])
                        | _ \<Rightarrow> Inl (TypeError CannotConvertIntoIntCtype)),
      from_CType = (\<lambda>cval. case cval of
                               Tup [Leaf a, Leaf b] \<Rightarrow> Inr (PyInt (a + b))
                             | _ \<Rightarrow> Inl (TypeError NotIterable))\<rparr>"

definition total_native :: "(ctype, int) native" where
  "total_native args =
     (case args of
        [Struct (Structure key fs), Plain a] \<Rightarrow>
          (0, [Struct (Structure key [Scalar c_int32 a, Scalar c_int32 (a + 1)]), Plain a])
      | _ \<Rightarrow> (0, args))"

definition total_target :: "(ctype, int) CTarget" where
  "total_target = \<lparr>so = Some [''_mlir_ciface_total'' \<mapsto> total_native]\<rparr>"

definition total_f :: "(pyval, ctype, int) Function" where
  "total_f = \<lparr>f_name = ''total'', parameters = [Some (Int_SupportsCType SInt32)],
               return_annotation = ReturnPlain (Some Pair32_SupportsCType)\<rparr>"

section \<open>Properties of the typed numeric values\<close>

subsection \<open>Construction of Int\<close>

text \<open>
  An instance is well formed when its value is a signless MLIR integer of the width of its
  class. Every instance that a constructor returns is well formed.
\<close>

definition wf_inst :: "IntInst \<Rightarrow> bool" where
  "wf_inst i = (width (cls i) \<noteq> 0 \<and> value_type (ivalue i) = IntegerType (width (cls i)) True)"

lemma init_from_mlir_value_Inr:
  "init_from_mlir_value c v = Inr i \<longleftrightarrow>
     (value_type v = IntegerType (width c) True \<and> i = \<lparr>cls = c, ivalue = v\<rparr>)"
  by (auto simp: init_from_mlir_value_def split: mlir_type.splits)

lemma Int_init_wf: "Int_init c rep = Inr i \<Longrightarrow> wf_inst i \<and> cls i = c"
  by (auto simp: Int_init_def init_from_real_def init_from_mlir_value_Inr wf_inst_def
        lower_class_def Let_def
      split: if_splits pyval.splits sum.splits)

lemma Bool_init_wf: "Bool_init rep = Inr i \<Longrightarrow> wf_inst i \<and> cls i = Bool"
  by (cases rep) (auto simp: Bool_init_def wf_inst_def Bool_def dest: Int_init_wf)

text \<open>The integers that \<^verbatim>\<open>Int.__init__\<close> accepts, as the code has them.\<close>

lemma Int_init_accepts:
  assumes "width c \<noteq> 0" "\<not> float_overflows n"
  shows "(\<exists>i. Int_init c (PyInt n) = Inr i) \<longleftrightarrow>
     (case sign c of
        SIGNED \<Rightarrow> - (2 ^ (width c - 1)) \<le> n \<and> n \<le> 2 ^ (width c - 1)
      | UNSIGNED \<Rightarrow> 0 \<le> n \<and> n \<le> 2 ^ width c - 2)"
  using assms
  by (auto simp: Int_init_def init_from_real_def isclose_int_def in_range_def val_range_def
      split: Sign.splits)

lemma Int_init_rejects_with_ValueError:
  assumes "width c \<noteq> 0" "\<not> float_overflows n" "\<not> (\<exists>i. Int_init c (PyInt n) = Inr i)"
  shows "Int_init c (PyInt n) = Inl (ValueError (OutOfRange n))"
  using assms
  by (auto simp: Int_init_def init_from_real_def isclose_int_def in_range_def val_range_def
      split: Sign.splits if_splits)

lemma UInt8_boundary:
  "(\<exists>i. Int_init \<lparr>width = 8, sign = UNSIGNED\<rparr> (PyInt 0) = Inr i)
   \<and> (\<exists>i. Int_init \<lparr>width = 8, sign = UNSIGNED\<rparr> (PyInt 254) = Inr i)
   \<and> Int_init \<lparr>width = 8, sign = UNSIGNED\<rparr> (PyInt 255) = Inl (ValueError (OutOfRange 255))
   \<and> Int_init \<lparr>width = 8, sign = UNSIGNED\<rparr> (PyInt (- 1)) = Inl (ValueError (OutOfRange (- 1)))"
  by (simp add: Int_init_def init_from_real_def isclose_int_def float_overflows_def in_range_def
      val_range_def)

text \<open>
  Claim C4. The claim gives the signed range as \<open>[-2^(w-1), 2^(w-1) - 1]\<close>. \<^verbatim>\<open>val_range\<close>
  returns \<open>2^(w-1)\<close> as the upper bound and \<^verbatim>\<open>in_range\<close> compares with \<open>\<le>\<close>, so the
  constructor of a signed class accepts \<open>2^(w-1)\<close>, which a signed integer of that width
  cannot hold: \<^verbatim>\<open>SInt8(128)\<close> is constructed, as the constant 128 of type \<open>i8\<close>, and no range
  error is raised.
\<close>

theorem Int_init_SInt8_accepts_128:
  "Int_init \<lparr>width = 8, sign = SIGNED\<rparr> (PyInt 128)
     = Inr \<lparr>cls = \<lparr>width = 8, sign = SIGNED\<rparr>, ivalue = ConstantOp (IntegerType 8 True) 128\<rparr>"
  by (simp add: Int_init_def init_from_real_def isclose_int_def float_overflows_def in_range_def
      val_range_def lower_class_def)

subsection \<open>Construction of Bool\<close>

text \<open>
  Claim C9. \<^verbatim>\<open>Bool(True)\<close> and \<^verbatim>\<open>Bool(False)\<close> are the constants 1 and 0 of width 1.
  The integer 1 goes to \<^verbatim>\<open>Int.__init__\<close>, where the range of \<^verbatim>\<open>Bool\<close> (unsigned, width 1)
  is \<open>[0, 0]\<close>: a range error; the integer 0 is accepted.
\<close>

theorem Bool_init_bool_versus_int:
  "Bool_init (PyBool True) = Inr \<lparr>cls = Bool, ivalue = ConstantOp (IntegerType 1 True) 1\<rparr>
   \<and> Bool_init (PyBool False) = Inr \<lparr>cls = Bool, ivalue = ConstantOp (IntegerType 1 True) 0\<rparr>
   \<and> Bool_init (PyInt 1) = Inl (ValueError (OutOfRange 1))
   \<and> Bool_init (PyInt 0) = Inr \<lparr>cls = Bool, ivalue = ConstantOp (IntegerType 1 True) 0\<rparr>
   \<and> val_range Bool = Inr (0, 0)
   \<and> width Bool = 1 \<and> sign Bool = UNSIGNED"
  by (simp add: Bool_init_def Bool_def Int_init_def init_from_real_def isclose_int_def
      float_overflows_def in_range_def val_range_def lower_class_def)

subsection \<open>The check of \<^verbatim>\<open>Int.to_CType\<close>\<close>

text \<open>
  Claim C10. \<^verbatim>\<open>Int.to_CType(pyval)\<close> raises exactly when \<^verbatim>\<open>int(pyval)\<close> raises, or
  \<open>2^width \<le> int(pyval)\<close>, or the class is unsigned and the value is negative. So a signed
  class lets every negative integer through, and every value from \<open>2^(w-1)\<close> to \<open>2^w - 1\<close>.
  The check is strictly weaker than \<^verbatim>\<open>in_range\<close>: whatever is in range passes it, and some
  integer that passes it is not in range.
\<close>

theorem Int_to_CType_raises_iff:
  "((\<exists>e. Int_to_CType c p = Inl e) \<longleftrightarrow>
      (py_int p = None \<or>
       (\<exists>n. py_int p = Some n \<and> (2 ^ width c \<le> n \<or> (sign c = UNSIGNED \<and> n < 0)))))
   \<and> (sign c = SIGNED \<and> n < 0 \<longrightarrow> Int_to_CType c (PyInt n) = Inr (Tup [Leaf n]))
   \<and> (sign c = SIGNED \<and> 2 ^ (width c - 1) \<le> n \<and> n \<le> 2 ^ width c - 1
        \<longrightarrow> Int_to_CType c (PyInt n) = Inr (Tup [Leaf n]))
   \<and> (in_range c n = Inr True \<longrightarrow> Int_to_CType c (PyInt n) = Inr (Tup [Leaf n]))
   \<and> (\<exists>m. Int_to_CType c (PyInt m) = Inr (Tup [Leaf m]) \<and> in_range c m \<noteq> Inr True)"
proof -
  have neg: "n < 0 \<Longrightarrow> \<not> 2 ^ width c \<le> n" for n :: int
    by (smt (verit) zero_less_power)
  have 1: "(\<exists>e. Int_to_CType c p = Inl e) \<longleftrightarrow>
      (py_int p = None \<or>
       (\<exists>n. py_int p = Some n \<and> (2 ^ width c \<le> n \<or> (sign c = UNSIGNED \<and> n < 0))))"
    by (auto simp: Int_to_CType_def split: option.splits)
  have 2: "sign c = SIGNED \<and> n < 0 \<longrightarrow> Int_to_CType c (PyInt n) = Inr (Tup [Leaf n])"
    using neg by (auto simp: Int_to_CType_def)
  have 3: "sign c = SIGNED \<and> 2 ^ (width c - 1) \<le> n \<and> n \<le> 2 ^ width c - 1
      \<longrightarrow> Int_to_CType c (PyInt n) = Inr (Tup [Leaf n])"
    by (auto simp: Int_to_CType_def)
  have pw: "(2::int) ^ (width c - 1) < 2 ^ width c" if "width c \<noteq> 0"
    using that by (cases "width c") auto
  have 4: "in_range c n = Inr True \<longrightarrow> Int_to_CType c (PyInt n) = Inr (Tup [Leaf n])"
  proof (cases "sign c")
    case SIGNED
    show ?thesis
    proof (cases "width c = 0")
      case True
      then show ?thesis using SIGNED by (simp add: in_range_def val_range_def)
    next
      case False
      from pw[OF False] have "n \<le> 2 ^ (width c - 1) \<Longrightarrow> \<not> 2 ^ width c \<le> n" by linarith
      then show ?thesis using SIGNED False
        by (auto simp: Int_to_CType_def in_range_def val_range_def simp del: One_nat_def)
    qed
  next
    case UNSIGNED
    then show ?thesis by (auto simp: Int_to_CType_def in_range_def val_range_def)
  qed
  have 5: "\<exists>m. Int_to_CType c (PyInt m) = Inr (Tup [Leaf m]) \<and> in_range c m \<noteq> Inr True"
  proof (cases "sign c")
    case SIGNED
    have a: "(- (2 ^ width c) - 1 :: int) < 0" by (smt (verit) zero_less_power)
    have b: "\<not> (- (2 ^ (width c - 1)) \<le> (- (2 ^ width c) - 1 :: int))"
      using pw by (cases "width c = 0") auto
    show ?thesis
      apply (rule exI[of _ "- (2 ^ width c) - 1"])
      using SIGNED a b neg[OF a] by (auto simp: Int_to_CType_def in_range_def val_range_def)
  next
    case UNSIGNED
    have "(1::int) \<le> 2 ^ width c" by (rule one_le_power) simp
    then have a: "\<not> (2::int) ^ width c - 1 < 0" by linarith
    have "Int_to_CType c (PyInt (2 ^ width c - 1)) = Inr (Tup [Leaf (2 ^ width c - 1)])"
      using a by (simp add: Int_to_CType_def)
    moreover have "in_range c (2 ^ width c - 1) \<noteq> Inr True"
      using UNSIGNED by (simp add: in_range_def val_range_def)
    ultimately show ?thesis by blast
  qed
  show ?thesis using 1 2 3 4 5 by blast
qed

theorem Int_to_CType_raises_iff_witness:
  "Int_to_CType \<lparr>width = 8, sign = SIGNED\<rparr> (PyInt (- 1000)) = Inr (Tup [Leaf (- 1000)])
   \<and> Int_to_CType \<lparr>width = 8, sign = SIGNED\<rparr> (PyInt 200) = Inr (Tup [Leaf 200])
   \<and> in_range \<lparr>width = 8, sign = SIGNED\<rparr> 5 = Inr True
   \<and> Int_to_CType \<lparr>width = 8, sign = SIGNED\<rparr> (PyInt 5) = Inr (Tup [Leaf 5])
   \<and> (\<exists>e. Int_to_CType \<lparr>width = 8, sign = SIGNED\<rparr> (PyInt 256) = Inl e)
   \<and> (\<exists>e. Int_to_CType \<lparr>width = 8, sign = UNSIGNED\<rparr> (PyInt (- 1)) = Inl e)
   \<and> (\<exists>e. Int_to_CType \<lparr>width = 8, sign = SIGNED\<rparr> PyNone = Inl e)"
  using Int_to_CType_raises_iff [of "\<lparr>width = 8, sign = SIGNED\<rparr>" "PyInt 256" "- 1000"]
    Int_to_CType_raises_iff [of "\<lparr>width = 8, sign = SIGNED\<rparr>" "PyNone" 200]
    Int_to_CType_raises_iff [of "\<lparr>width = 8, sign = SIGNED\<rparr>" "PyNone" 5]
    Int_to_CType_raises_iff [of "\<lparr>width = 8, sign = UNSIGNED\<rparr>" "PyInt (- 1)" 0]
  by (simp add: in_range_def val_range_def)

subsection \<open>The cast from Int to Int\<close>

text \<open>
  Claim C5. The cast of a well-formed \<^verbatim>\<open>Int\<close> value to an \<^verbatim>\<open>Int\<close> class succeeds exactly
  when the class has the same sign and a width that is not smaller; otherwise it raises
  \<^verbatim>\<open>TypeError\<close>. At equal width the value is adopted as it is; at a greater width it is
  extended, signed or unsigned by the sign.
\<close>

theorem Int_Int_succeeds_iff:
  assumes "wf_inst self"
  shows "((\<exists>r. Int_Int self t = Inr r) \<longleftrightarrow> (sign t = sign (cls self) \<and> width (cls self) \<le> width t))
    \<and> (\<not> (sign t = sign (cls self) \<and> width (cls self) \<le> width t)
         \<longrightarrow> (\<exists>r. Int_Int self t = Inl (TypeError r)))
    \<and> (sign t = sign (cls self) \<and> width t = width (cls self)
         \<longrightarrow> Int_Int self t = Inr \<lparr>cls = t, ivalue = ivalue self\<rparr>)
    \<and> (sign t = sign (cls self) \<and> width (cls self) < width t \<longrightarrow>
         Int_Int self t = Inr \<lparr>cls = t, ivalue = (case sign (cls self) of
               SIGNED \<Rightarrow> ExtSIOp (IntegerType (width t) True) (ivalue self)
             | UNSIGNED \<Rightarrow> ExtUIOp (IntegerType (width t) True) (ivalue self))\<rparr>)"
  using assms
  by (auto simp: Int_Int_def try_casting_def Int_init_def init_from_mlir_value_def wf_inst_def
        lower_class_def Let_def
      split: Sign.splits)

theorem Int_Int_succeeds_iff_witness:
  "wf_inst \<lparr>cls = \<lparr>width = 8, sign = SIGNED\<rparr>, ivalue = ConstantOp (IntegerType 8 True) 5\<rparr>
   \<and> Int_Int \<lparr>cls = \<lparr>width = 8, sign = SIGNED\<rparr>, ivalue = ConstantOp (IntegerType 8 True) 5\<rparr>
        \<lparr>width = 8, sign = SIGNED\<rparr>
      = Inr \<lparr>cls = \<lparr>width = 8, sign = SIGNED\<rparr>, ivalue = ConstantOp (IntegerType 8 True) 5\<rparr>
   \<and> (\<exists>r. Int_Int \<lparr>cls = \<lparr>width = 8, sign = SIGNED\<rparr>, ivalue = ConstantOp (IntegerType 8 True) 5\<rparr>
        \<lparr>width = 4, sign = SIGNED\<rparr> = Inl (TypeError r))
   \<and> (\<exists>r. Int_Int \<lparr>cls = \<lparr>width = 8, sign = SIGNED\<rparr>, ivalue = ConstantOp (IntegerType 8 True) 5\<rparr>
        \<lparr>width = 8, sign = UNSIGNED\<rparr> = Inl (TypeError r))
   \<and> Int_Int \<lparr>cls = \<lparr>width = 8, sign = SIGNED\<rparr>, ivalue = ConstantOp (IntegerType 8 True) 5\<rparr>
        \<lparr>width = 16, sign = SIGNED\<rparr>
      = Inr \<lparr>cls = \<lparr>width = 16, sign = SIGNED\<rparr>,
             ivalue = ExtSIOp (IntegerType 16 True) (ConstantOp (IntegerType 8 True) 5)\<rparr>"
proof -
  let ?x = "\<lparr>cls = \<lparr>width = 8, sign = SIGNED\<rparr>, ivalue = ConstantOp (IntegerType 8 True) 5\<rparr>"
  have wf: "wf_inst ?x" by (simp add: wf_inst_def)
  show ?thesis
    using wf Int_Int_succeeds_iff [OF wf, of "\<lparr>width = 8, sign = SIGNED\<rparr>"]
      Int_Int_succeeds_iff [OF wf, of "\<lparr>width = 4, sign = SIGNED\<rparr>"]
      Int_Int_succeeds_iff [OF wf, of "\<lparr>width = 8, sign = UNSIGNED\<rparr>"]
      Int_Int_succeeds_iff [OF wf, of "\<lparr>width = 16, sign = SIGNED\<rparr>"]
    by simp
qed

subsection \<open>The binary operators of Number\<close>

lemma Number_methods_snoc:
  "Number_methods (xs @ [x]) = (Number_methods xs)(ldunder_name x \<mapsto> x)"
  by (simp add: Number_methods_def)

text \<open>A name that one tuple only of the table carries is bound to that tuple, in every order.\<close>

lemma Number_methods_unique:
  "e \<in> set order \<Longrightarrow> \<forall>e' \<in> set order. ldunder_name e' = ldunder_name e \<longrightarrow> e' = e
     \<Longrightarrow> Number_methods order (ldunder_name e) = Some e"
proof (induction order rule: rev_induct)
  case Nil
  then show ?case by simp
next
  case (snoc x xs)
  show ?case
  proof (cases "ldunder_name x = ldunder_name e")
    case True
    with snoc.prems have "x = e" by simp
    then show ?thesis by (simp add: Number_methods_snoc)
  next
    case False
    with snoc.prems have "e \<in> set xs" by auto
    with snoc False show ?thesis by (simp add: Number_methods_snoc)
  qed
qed

lemma op_eq_entry:
  "\<lparr>ldunder_name = ''op_eq'', internal_op = operator_le, rdunder_name = ''op_eq'',
     default_ret_type = RetBool\<rparr> \<in> set bin_number_op"
  by (simp add: bin_number_op_def BinNumberOp_def)

lemma op_eq_entry_unique:
  "\<forall>e' \<in> set bin_number_op. ldunder_name e' = ''op_eq'' \<longrightarrow>
     e' = \<lparr>ldunder_name = ''op_eq'', internal_op = operator_le, rdunder_name = ''op_eq'',
            default_ret_type = RetBool\<rparr>"
  by (simp add: bin_number_op_def BinNumberOp_def)

text \<open>
  Claim C7. The claim says that \<^verbatim>\<open>a.op_eq(b)\<close> is the \<^verbatim>\<open>Bool\<close> of \<^verbatim>\<open>a.value == b.value\<close>. The
  table pairs \<^verbatim>\<open>op_eq\<close> with \<^verbatim>\<open>operator.le\<close>: in whatever order the set is visited,
  \<^verbatim>\<open>Number(1).op_eq(Number(2))\<close> is \<^verbatim>\<open>Bool(1 <= 2)\<close>, the constant 1, although 1 and 2 are
  not equal.
\<close>

theorem Number_op_eq_applies_le:
  assumes "set order = set bin_number_op"
  shows "Number_call order ''op_eq'' (Number 1) (RhsNumber (Number 2))
           = Inr (ResBool \<lparr>cls = Bool, ivalue = ConstantOp (IntegerType 1 True) 1\<rparr>)
         \<and> (1::int) \<noteq> 2"
proof -
  let ?e = "\<lparr>ldunder_name = ''op_eq'', internal_op = operator_le, rdunder_name = ''op_eq'',
             default_ret_type = RetBool\<rparr>"
  have mem: "?e \<in> set order"
    unfolding assms by (rule op_eq_entry)
  have uniq: "\<forall>e' \<in> set order. ldunder_name e' = ldunder_name ?e \<longrightarrow> e' = ?e"
    unfolding assms using op_eq_entry_unique by simp
  have "Number_methods order (ldunder_name ?e) = Some ?e"
    using mem uniq by (rule Number_methods_unique)
  then have m: "Number_methods order ''op_eq'' = Some ?e"
    by simp
  show ?thesis
    by (simp add: Number_call_def m generic_bin_op_def Bool_init_def)
qed

theorem Number_op_eq_applies_le_witness:
  "set bin_number_op = set bin_number_op \<and>
   Number_call bin_number_op ''op_eq'' (Number 1) (RhsNumber (Number 2))
           = Inr (ResBool \<lparr>cls = Bool, ivalue = ConstantOp (IntegerType 1 True) 1\<rparr>)"
  using Number_op_eq_applies_le [of bin_number_op, OF refl] by blast

text \<open>Further facts about the table, in every order of the set.\<close>

lemma Number_methods_absent:
  "\<forall>e \<in> set order. ldunder_name e \<noteq> name \<Longrightarrow> Number_methods order name = None"
  by (induction order rule: rev_induct) (auto simp: Number_methods_def)

text \<open>
  The table has no tuple named \<^verbatim>\<open>op_or\<close>: \<^verbatim>\<open>operator.or_\<close> is entered under the name
  \<^verbatim>\<open>op_xor\<close>, a second time.
\<close>

lemma Number_op_or_undefined:
  assumes "set order = set bin_number_op"
  shows "Number_call order ''op_or'' self rhs = Inl (AttributeError (NoSuchAttribute ''op_or''))"
proof -
  have "\<forall>e \<in> set order. ldunder_name e \<noteq> ''op_or''"
    unfolding assms by (simp add: bin_number_op_def BinNumberOp_def)
  then show ?thesis by (simp add: Number_call_def Number_methods_absent)
qed

lemma op_lt_entry:
  "\<lparr>ldunder_name = ''op_lt'', internal_op = operator_lt, rdunder_name = ''op_gt'',
     default_ret_type = RetBool\<rparr> \<in> set bin_number_op"
  by (simp add: bin_number_op_def BinNumberOp_def)

lemma op_lt_entry_unique:
  "\<forall>e' \<in> set bin_number_op. ldunder_name e' = ''op_lt'' \<longrightarrow>
     e' = \<lparr>ldunder_name = ''op_lt'', internal_op = operator_lt, rdunder_name = ''op_gt'',
            default_ret_type = RetBool\<rparr>"
  by (simp add: bin_number_op_def BinNumberOp_def)

lemma Number_methods_op_lt:
  assumes "set order = set bin_number_op"
  shows "Number_methods order ''op_lt'' =
     Some \<lparr>ldunder_name = ''op_lt'', internal_op = operator_lt, rdunder_name = ''op_gt'',
            default_ret_type = RetBool\<rparr>"
proof -
  let ?e = "\<lparr>ldunder_name = ''op_lt'', internal_op = operator_lt, rdunder_name = ''op_gt'',
             default_ret_type = RetBool\<rparr>"
  have mem: "?e \<in> set order"
    unfolding assms by (rule op_lt_entry)
  have uniq: "\<forall>e' \<in> set order. ldunder_name e' = ldunder_name ?e \<longrightarrow> e' = ?e"
    unfolding assms using op_lt_entry_unique by simp
  have "Number_methods order (ldunder_name ?e) = Some ?e"
    using mem uniq by (rule Number_methods_unique)
  then show ?thesis by simp
qed

lemma Number_methods_op_eq:
  assumes "set order = set bin_number_op"
  shows "Number_methods order ''op_eq'' =
     Some \<lparr>ldunder_name = ''op_eq'', internal_op = operator_le, rdunder_name = ''op_eq'',
            default_ret_type = RetBool\<rparr>"
proof -
  let ?e = "\<lparr>ldunder_name = ''op_eq'', internal_op = operator_le, rdunder_name = ''op_eq'',
             default_ret_type = RetBool\<rparr>"
  have mem: "?e \<in> set order"
    unfolding assms by (rule op_eq_entry)
  have uniq: "\<forall>e' \<in> set order. ldunder_name e' = ldunder_name ?e \<longrightarrow> e' = ?e"
    unfolding assms using op_eq_entry_unique by simp
  have "Number_methods order (ldunder_name ?e) = Some ?e"
    using mem uniq by (rule Number_methods_unique)
  then show ?thesis by simp
qed

text \<open>\<^verbatim>\<open>op_lt\<close> folds with the host's \<open><\<close>, and \<^verbatim>\<open>op_eq\<close> with the host's \<open>\<le>\<close>.\<close>

lemma Number_op_lt_folds:
  assumes "set order = set bin_number_op"
  shows "Number_call order ''op_lt'' (Number a) (RhsNumber (Number b))
           = Inr (ResBool \<lparr>cls = Bool, ivalue = ConstantOp (IntegerType 1 True) (if a < b then 1 else 0)\<rparr>)"
  by (simp add: Number_call_def Number_methods_op_lt [OF assms] generic_bin_op_def Bool_init_def)

lemma Number_op_eq_folds:
  assumes "set order = set bin_number_op"
  shows "Number_call order ''op_eq'' (Number a) (RhsNumber (Number b))
           = Inr (ResBool \<lparr>cls = Bool, ivalue = ConstantOp (IntegerType 1 True) (if a \<le> b then 1 else 0)\<rparr>)"
  by (simp add: Number_call_def Number_methods_op_eq [OF assms] generic_bin_op_def Bool_init_def)

text \<open>With a concrete right operand the call goes to its reflected method.\<close>

lemma Number_op_lt_delegates:
  assumes "set order = set bin_number_op"
  shows "Number_call order ''op_lt'' self (RhsConcrete methods)
           = (case methods ''op_gt'' of
                None \<Rightarrow> Inl (AttributeError (NoSuchAttribute ''op_gt''))
              | Some m \<Rightarrow> (case m self of Inl e \<Rightarrow> Inl e | Inr x \<Rightarrow> Inr (ResReflected x)))"
  by (simp add: Number_call_def Number_methods_op_lt [OF assms] generic_bin_op_def
      split: option.splits)

lemma Number_op_eq_delegates:
  assumes "set order = set bin_number_op"
  shows "Number_call order ''op_eq'' self (RhsConcrete methods)
           = (case methods ''op_eq'' of
                None \<Rightarrow> Inl (AttributeError (NoSuchAttribute ''op_eq''))
              | Some m \<Rightarrow> (case m self of Inl e \<Rightarrow> Inl e | Inr x \<Rightarrow> Inr (ResReflected x)))"
  by (simp add: Number_call_def Number_methods_op_eq [OF assms] generic_bin_op_def
      split: option.splits)

section \<open>Properties of the marshaller\<close>

text \<open>
  The type that \<^verbatim>\<open>CTypeTreeType_to_Structure(t) if isinstance(t, tuple) else t\<close> yields for
  a node \<open>t\<close>: the conversion never raises on a tuple.
\<close>

fun stype_of :: "'c tree \<Rightarrow> 'c stype" where
  "stype_of (Leaf c) = Prim c"
| "stype_of (Tup [t]) = stype_of t"
| "stype_of (Tup ts) = StructT (Tup ts) (map stype_of ts)"


lemma stype_of_StructT: "length ts \<noteq> 1 \<Longrightarrow> stype_of (Tup ts) = StructT (Tup ts) (map stype_of ts)"
proof (cases ts)
  case Nil
  then show ?thesis by simp
next
  case (Cons a as)
  assume "length ts \<noteq> 1"
  with Cons show ?thesis by (cases as) auto
qed

lemma mapM_sum_Inr: "(\<And>x. x \<in> set xs \<Longrightarrow> f x = Inr (g x)) \<Longrightarrow> mapM_sum f xs = Inr (map g xs)"
  by (induction xs) auto

lemma CTypeTreeType_to_Structure_child:
  "(case t of Tup us \<Rightarrow> CTypeTreeType_to_Structure t | Leaf c \<Rightarrow> Inr (Prim c)) = Inr (stype_of t)"
proof (induction t)
  case (Leaf c)
  show ?case by simp
next
  case (Tup ts)
  have IH: "\<And>x. x \<in> set ts \<Longrightarrow>
      (case x of Tup us \<Rightarrow> CTypeTreeType_to_Structure x | Leaf c \<Rightarrow> Inr (Prim c)) = Inr (stype_of x)"
    using Tup by simp
  show ?case
  proof (cases ts)
    case Nil
    then show ?thesis by simp
  next
    case (Cons a as)
    show ?thesis
    proof (cases as)
      case Nil
      with Cons IH[of a] show ?thesis by simp
    next
      case (Cons b bs)
      have "mapM_sum (\<lambda>t. case t of Tup us \<Rightarrow> CTypeTreeType_to_Structure t | Leaf c \<Rightarrow> Inr (Prim c)) ts
          = Inr (map stype_of ts)"
        by (rule mapM_sum_Inr) (rule IH)
      with Cons \<open>ts = a # as\<close> show ?thesis by simp
    qed
  qed
qed

lemma CTypeTreeType_to_Structure_Tup:
  "CTypeTreeType_to_Structure (Tup ts) = Inr (stype_of (Tup ts))"
  using CTypeTreeType_to_Structure_child [of "Tup ts"] by simp

subsection \<open>Shapes\<close>

text \<open>
  Two trees have the same shape when they have the same nesting and the same length at
  every level. \<open>shape_mismatch\<close> walks two trees in step, left to right, and names the first
  place where they differ: a tuple against something that is not a tuple is a mismatch in
  depth, two tuples of different length a mismatch in length.
\<close>

fun same_shape :: "'a tree \<Rightarrow> 'b tree \<Rightarrow> bool" where
  "same_shape (Leaf a) (Leaf b) = True"
| "same_shape (Tup ts) (Tup vs) = list_all2 same_shape ts vs"
| "same_shape (Leaf a) (Tup vs) = False"
| "same_shape (Tup ts) (Leaf b) = False"

fun shape_mismatch :: "'a tree \<Rightarrow> 'b tree \<Rightarrow> reason option"
  and shape_mismatches :: "'a tree list \<Rightarrow> 'b tree list \<Rightarrow> reason option" where
  "shape_mismatch (Leaf a) (Leaf b) = None"
| "shape_mismatch (Tup ts) (Tup vs) =
     (if length ts \<noteq> length vs then Some MismatchInLength else shape_mismatches ts vs)"
| "shape_mismatch (Leaf a) (Tup vs) = Some MismatchInDepth"
| "shape_mismatch (Tup ts) (Leaf b) = Some MismatchInDepth"
| "shape_mismatches (t # ts) (v # vs) =
     (case shape_mismatch t v of Some r \<Rightarrow> Some r | None \<Rightarrow> shape_mismatches ts vs)"
| "shape_mismatches [] vs = None"
| "shape_mismatches ts [] = None"

lemma shape_mismatch_None_iff:
  "(shape_mismatch (t :: 'a tree) (v :: 'b tree) = None \<longleftrightarrow> same_shape t v)"
  "length ts = length vs \<Longrightarrow>
     (shape_mismatches (ts :: 'a tree list) (vs :: 'b tree list) = None \<longleftrightarrow> list_all2 same_shape ts vs)"
  by (induction t v and ts vs rule: shape_mismatch_shape_mismatches.induct)
    (auto split: option.splits dest: list_all2_lengthD)

text \<open>The element of the comprehensions of \<^verbatim>\<open>CTypeTree_to_Structure\<close>.\<close>

fun to_child :: "('c \<Rightarrow> 'v) \<Rightarrow> 'c tree \<Rightarrow> 'v tree \<Rightarrow> exn + ('c, 'v) cvalue" where
  "to_child z (Leaf t) (Leaf v) = Inr (Plain v)"
| "to_child z t v = CTypeTree_to_Structure z t v"

lemma to_child_eq:
  "(case (t, v) of (Leaf t', Leaf v') \<Rightarrow> Inr (Plain v') | _ \<Rightarrow> CTypeTree_to_Structure z t v) = to_child z t v"
  by (cases t; cases v; simp)

lemma to_child_lambda:
  "(\<lambda>(t, v). case (t, v) of (Leaf t', Leaf v') \<Rightarrow> Inr (Plain v') | _ \<Rightarrow> CTypeTree_to_Structure z t v)
     = (\<lambda>(t, v). to_child z t v)"
  by (rule ext) (clarsimp split: tree.splits)

lemma to_child_hd:
  "(case (t, v) of (Leaf t', Leaf v') \<Rightarrow> Inr (Plain v') | (t, v) \<Rightarrow> CTypeTree_to_Structure z t v) = to_child z t v"
  by (cases t; cases v; simp)

lemma CTypeTree_to_Structure_Tup:
  "CTypeTree_to_Structure z (Tup ct) (Tup c) =
     (if length ct \<noteq> length c then Inl (TypeError MismatchInLength)
      else if length ct = 1 then to_child z (hd ct) (hd c)
      else (case mapM_sum (\<lambda>(t, v). to_child z t v) (zip ct c) of
              Inl e \<Rightarrow> Inl e
            | Inr c_recursive \<Rightarrow> instantiate z (stype_of (Tup ct)) c_recursive))"
  unfolding CTypeTree_to_Structure.simps(1) to_child_hd to_child_lambda CTypeTreeType_to_Structure_Tup
  by (simp split: sum.splits)

subsection \<open>Reading a Structure back\<close>

text \<open>One iteration of the loop over the fields, up to the value that is appended.\<close>

definition from_field :: "'c tree \<Rightarrow> ('c, 'v) cfield \<Rightarrow> (exn + 'v tree) option" where
  "from_field t0 f =
     (case strip_member t0 0 of
        (t, m) \<Rightarrow>
          (case (case f of
                   Nested s \<Rightarrow> CTypeTree_from_Structure t (Struct s)
                 | Scalar st v \<Rightarrow>
                     (if t \<noteq> Leaf st then Some (Inl (TypeError TypeMismatchFromStructure))
                      else Some (Inr (Leaf v)))) of
             None \<Rightarrow> None
           | Some (Inl e) \<Rightarrow> Some (Inl e)
           | Some (Inr fval) \<Rightarrow> Some (Inr (add_shells m fval))))"

lemma from_fields_Cons:
  "from_fields (t0 # ts) (f # fs) =
     (case from_field t0 f of
        None \<Rightarrow> None
      | Some (Inl e) \<Rightarrow> Some (Inl e)
      | Some (Inr x) \<Rightarrow>
          (case from_fields ts fs of
             None \<Rightarrow> None
           | Some (Inl e) \<Rightarrow> Some (Inl e)
           | Some (Inr ret) \<Rightarrow> Some (Inr (x # ret))))"
  by (simp add: from_field_def split: prod.splits option.splits sum.splits cfield.splits)

lemma strip_member_add:
  "strip_member t (n + k) = (case strip_member t n of (t', m) \<Rightarrow> (t', m + k))"
  by (induction t n rule: strip_member.induct) (simp_all add: ac_simps)

lemma strip_member_Tup1:
  "strip_member (Tup [t]) 0 = (case strip_member t 0 of (t', m) \<Rightarrow> (t', Suc m))"
  using strip_member_add [of t 0 1] by simp

lemma strip_member_stop: "length ts \<noteq> 1 \<Longrightarrow> strip_member (Tup ts) n = (Tup ts, n)"
proof (cases ts)
  case Nil
  then show ?thesis by simp
next
  case (Cons a as)
  assume "length ts \<noteq> 1"
  with Cons show ?thesis by (cases as) auto
qed

lemma add_shells_Tup: "add_shells n (Tup [v]) = Tup [add_shells n v]"
  by (induction n arbitrary: v) simp_all

lemma from_field_Tup1:
  "from_field (Tup [t]) f =
     (case from_field t f of
        None \<Rightarrow> None
      | Some (Inl e) \<Rightarrow> Some (Inl e)
      | Some (Inr x) \<Rightarrow> Some (Inr (Tup [x])))"
  unfolding from_field_def strip_member_Tup1
  by (simp add: add_shells_Tup split: prod.splits option.splits sum.splits cfield.splits)

lemma strip_shell_stop: "length ct \<noteq> 1 \<Longrightarrow> strip_shell ct n = Some (ct, n)"
  by (subst strip_shell.simps) simp

lemma strip_shell_Tup: "strip_shell [Tup ct] n = strip_shell ct (Suc n)"
  by (subst strip_shell.simps) simp

lemma strip_shell_Some_not_Leaf:
  assumes "strip_shell ct n = Some y"
  shows "ct \<noteq> [Leaf c]"
proof (rule strip_shell.raw_induct [where P = "\<lambda>ct n y. ct \<noteq> [Leaf c]", OF _ assms])
  fix f :: "'a tree list \<Rightarrow> nat \<Rightarrow> ('a tree list \<times> nat) option" and ct n y
  assume IH: "\<And>ct n y. f ct n = Some y \<Longrightarrow> ct \<noteq> [Leaf c]"
    and step: "(if length ct = 1
      then case hd ct of Leaf t \<Rightarrow> f ct (n + 1) | Tup ct' \<Rightarrow> f ct' (n + 1)
      else Some (ct, n)) = Some y"
  show "ct \<noteq> [Leaf c]"
  proof
    assume "ct = [Leaf c]"
    with step have "f [Leaf c] (n + 1) = Some y" by simp
    from IH [OF this] show False by simp
  qed
qed

lemma strip_shell_Leaf_diverges: "strip_shell [Leaf c] n = None"
  using strip_shell_Some_not_Leaf [of "[Leaf c]" n _ c] by (cases "strip_shell [Leaf c] n") auto

lemma strip_member_strip_shell:
  "strip_member t n = (Tup us, m) \<Longrightarrow> t = Tup ct \<Longrightarrow> strip_shell ct n = Some (us, m)"
proof (induction t n arbitrary: ct rule: strip_member.induct)
  case (1 t n)
  then show ?case by (cases t) (auto simp: strip_shell_Tup)
qed (auto simp: strip_shell_stop)

lemma strip_member_result_length: "strip_member t n = (Tup us, m) \<Longrightarrow> length us \<noteq> 1"
  by (induction t n rule: strip_member.induct) auto

lemma from_Structure_stripped:
  assumes "strip_member (Tup ct) 0 = (Tup us, m)"
  shows "CTypeTree_from_Structure (Tup ct) (Struct s) =
     (case CTypeTree_from_Structure (Tup us) (Struct s) of
        None \<Rightarrow> None
      | Some (Inl e) \<Rightarrow> Some (Inl e)
      | Some (Inr x) \<Rightarrow> Some (Inr (add_shells m x)))"
proof -
  obtain key fs where s: "s = Structure key fs" by (cases s)
  have 1: "strip_shell ct 0 = Some (us, m)"
    using assms by (rule strip_member_strip_shell) simp
  have 2: "strip_shell us 0 = Some (us, 0)"
    using strip_member_result_length [OF assms] by (rule strip_shell_stop)
  show ?thesis
    by (simp add: s 1 2 split: option.splits sum.splits)
qed

declare CTypeTree_to_Structure.simps(1) [simp del]
declare from_fields.simps(1) [simp del]

lemma set_field_type: "set_field ft a = Inr f \<Longrightarrow> field_type f = ft"
  by (cases "(ft, a)" rule: set_field.cases) (auto split: if_splits)

subsection \<open>Building a Structure\<close>

text \<open>
  For a node and a value of the same shape, the value is converted, the field of the
  enclosing Structure accepts the result, and the field is read back as the value.
\<close>

definition child_ok :: "('c \<Rightarrow> 'v) \<Rightarrow> 'c tree \<Rightarrow> 'v tree \<Rightarrow> bool" where
  "child_ok z t v \<longleftrightarrow>
     (\<exists>r f. to_child z t v = Inr r \<and> set_field (stype_of t) r = Inr f \<and> from_field t f = Some (Inr v))"

lemma children_ok:
  "list_all2 (child_ok z) ts vs \<Longrightarrow>
     \<exists>rs fs. mapM_sum (\<lambda>(t, v). to_child z t v) (zip ts vs) = Inr rs
        \<and> length rs = length ts
        \<and> init_fields z (map stype_of ts) rs = Inr fs
        \<and> length fs = length ts
        \<and> map field_type fs = map stype_of ts
        \<and> from_fields ts fs = Some (Inr vs)"
proof (induction rule: list_all2_induct)
  case Nil
  then show ?case by simp
next
  case (Cons t ts v vs)
  from Cons.hyps(1) obtain r f where
    r: "to_child z t v = Inr r" and f: "set_field (stype_of t) r = Inr f"
    and rt: "from_field t f = Some (Inr v)"
    unfolding child_ok_def by blast
  from Cons.IH obtain rs fs where
    rs: "mapM_sum (\<lambda>(t, v). to_child z t v) (zip ts vs) = Inr rs" "length rs = length ts"
    and fs: "init_fields z (map stype_of ts) rs = Inr fs" "length fs = length ts"
      "map field_type fs = map stype_of ts"
    and rts: "from_fields ts fs = Some (Inr vs)"
    by blast
  have "mapM_sum (\<lambda>(t, v). to_child z t v) (zip (t # ts) (v # vs)) = Inr (r # rs)"
    using r rs by simp
  moreover have "init_fields z (map stype_of (t # ts)) (r # rs) = Inr (f # fs)"
    using f fs by simp
  moreover have "map field_type (f # fs) = map stype_of (t # ts)"
    using set_field_type [OF f] fs by simp
  moreover have "from_fields (t # ts) (f # fs) = Some (Inr (v # vs))"
    using rt rts by (simp add: from_fields_Cons)
  ultimately show ?case
    using rs(2) fs(2) by (intro exI [of _ "r # rs"] exI [of _ "f # fs"]) simp
qed

lemma to_child_Tup: "to_child z (Tup ts) v = CTypeTree_to_Structure z (Tup ts) v"
  by (cases v) simp_all

lemma same_shape_child_ok: "same_shape t v \<Longrightarrow> child_ok z t v"
proof (induction t arbitrary: v)
  case (Leaf c)
  then obtain x where v: "v = Leaf x" by (cases v) auto
  show ?case
    unfolding child_ok_def v by (simp add: from_field_def)
next
  case (Tup ts)
  from Tup.prems obtain vs where v: "v = Tup vs" and all: "list_all2 same_shape ts vs"
    by (cases v) auto
  have len: "length ts = length vs" using all by (rule list_all2_lengthD)
  have oks: "list_all2 (child_ok z) ts vs"
    using all by (rule list.rel_mono_strong) (rule Tup.IH)
  show ?case
  proof (cases "length ts = 1")
    case True
    then obtain t0 where ts: "ts = [t0]" by (cases ts) auto
    with len obtain v0 where vs: "vs = [v0]" by (cases vs) auto
    from oks have "child_ok z t0 v0" by (simp add: ts vs)
    then obtain r f where
      r: "to_child z t0 v0 = Inr r" and f: "set_field (stype_of t0) r = Inr f"
      and rt: "from_field t0 f = Some (Inr v0)"
      unfolding child_ok_def by blast
    have "to_child z (Tup ts) v = Inr r"
      using r by (simp add: to_child_Tup v ts vs CTypeTree_to_Structure_Tup)
    moreover have "set_field (stype_of (Tup ts)) r = Inr f"
      using f by (simp add: ts)
    moreover have "from_field (Tup ts) f = Some (Inr v)"
      using rt by (simp add: ts vs v from_field_Tup1)
    ultimately show ?thesis unfolding child_ok_def by blast
  next
    case False
    from children_ok [OF oks] obtain rs fs where
      rs: "mapM_sum (\<lambda>(t, v). to_child z t v) (zip ts vs) = Inr rs" "length rs = length ts"
      and fs: "init_fields z (map stype_of ts) rs = Inr fs" "length fs = length ts"
        "map field_type fs = map stype_of ts"
      and rts: "from_fields ts fs = Some (Inr vs)"
      by blast
    let ?s = "Structure (Tup ts) fs"
    have ty: "stype_of (Tup ts) = StructT (Tup ts) (map stype_of ts)"
      using False by (rule stype_of_StructT)
    have "to_child z (Tup ts) v = Inr (Struct ?s)"
      using False len rs fs by (simp add: to_child_Tup v CTypeTree_to_Structure_Tup ty instantiate_def)
    moreover have "set_field (stype_of (Tup ts)) (Struct ?s) = Inr (Nested ?s)"
      using fs by (simp add: ty)
    moreover have "from_field (Tup ts) (Nested ?s) = Some (Inr v)"
      using False fs rts
      by (simp add: from_field_def strip_member_stop strip_shell_stop v)
    ultimately show ?thesis unfolding child_ok_def by blast
  qed
qed

lemma same_shape_to_child_Inr: "same_shape t v \<Longrightarrow> \<exists>r. to_child z t v = Inr r"
  using same_shape_child_ok [of t v z] unfolding child_ok_def by blast

lemma shape_mismatches_children:
  assumes "length ts = length vs"
    and "\<And>t v r. t \<in> set ts \<Longrightarrow> shape_mismatch t v = Some r \<Longrightarrow> to_child z t v = Inl (TypeError r)"
    and "shape_mismatches ts vs = Some r"
  shows "mapM_sum (\<lambda>(t, v). to_child z t v) (zip ts vs) = Inl (TypeError r)"
  using assms
proof (induction ts vs rule: list_induct2)
  case Nil
  then show ?case by simp
next
  case (Cons t ts v vs)
  show ?case
  proof (cases "shape_mismatch t v")
    case None
    then have "same_shape t v" by (simp add: shape_mismatch_None_iff)
    then obtain x where x: "to_child z t v = Inr x"
      using same_shape_to_child_Inr by blast
    from None Cons.prems(2) have "shape_mismatches ts vs = Some r" by simp
    then have "mapM_sum (\<lambda>(t, v). to_child z t v) (zip ts vs) = Inl (TypeError r)"
      using Cons.IH Cons.prems(1) by simp
    then show ?thesis using x by simp
  next
    case (Some r')
    with Cons.prems(2) have "r' = r" by simp
    with Some Cons.prems(1) have "to_child z t v = Inl (TypeError r)" by simp
    then show ?thesis by simp
  qed
qed

lemma shape_mismatch_to_child:
  "shape_mismatch t v = Some r \<Longrightarrow> to_child z t v = Inl (TypeError r)"
proof (induction t arbitrary: v r)
  case (Leaf c)
  then show ?case by (cases v) auto
next
  case (Tup ts)
  show ?case
  proof (cases v)
    case (Leaf x)
    with Tup.prems show ?thesis by auto
  next
    case v: (Tup vs)
    show ?thesis
    proof (cases "length ts = length vs")
      case False
      with Tup.prems show ?thesis by (auto simp: v CTypeTree_to_Structure_Tup)
    next
      case len: True
      with Tup.prems have ms: "shape_mismatches ts vs = Some r" by (simp add: v)
      show ?thesis
      proof (cases "length ts = 1")
        case True
        then obtain t0 where ts: "ts = [t0]" by (cases ts) auto
        with len obtain v0 where vs: "vs = [v0]" by (cases vs) auto
        from ms have "shape_mismatch t0 v0 = Some r"
          by (simp add: ts vs split: option.splits)
        then have "to_child z t0 v0 = Inl (TypeError r)"
          using Tup.IH [of t0] by (simp add: ts)
        then show ?thesis by (simp add: v ts vs CTypeTree_to_Structure_Tup)
      next
        case False
        have "mapM_sum (\<lambda>(t, v). to_child z t v) (zip ts vs) = Inl (TypeError r)"
          using len Tup.IH ms by (rule shape_mismatches_children)
        then show ?thesis using False len by (simp add: v CTypeTree_to_Structure_Tup)
      qed
    qed
  qed
qed

lemma shape_mismatch_kinds:
  "shape_mismatch (t :: 'a tree) (v :: 'b tree) = Some r \<Longrightarrow> r = MismatchInDepth \<or> r = MismatchInLength"
  "shape_mismatches (ts :: 'a tree list) (vs :: 'b tree list) = Some r \<Longrightarrow> r = MismatchInDepth \<or> r = MismatchInLength"
  by (induction t v and ts vs rule: shape_mismatch_shape_mismatches.induct)
    (auto split: option.splits if_splits)

text \<open>
  Claim C6. \<^verbatim>\<open>CTypeTree_to_Structure\<close> on a tuple \<open>ct\<close> returns exactly when the two trees
  have the same shape. Otherwise it raises the error of the first mismatch: in depth when
  one of the two nodes only is a tuple, in length when two tuples differ in length. Nothing
  else is raised, and nothing is coerced.
\<close>

theorem CTypeTree_to_Structure_shape_check:
  "((\<exists>s. CTypeTree_to_Structure z (Tup ct) c = Inr s) \<longleftrightarrow> same_shape (Tup ct) c)
   \<and> (same_shape (Tup ct) c \<longleftrightarrow> shape_mismatch (Tup ct) c = None)
   \<and> (\<forall>r. shape_mismatch (Tup ct) c = Some r \<longrightarrow>
         CTypeTree_to_Structure z (Tup ct) c = Inl (TypeError r)
         \<and> (r = MismatchInDepth \<or> r = MismatchInLength))
   \<and> (\<forall>v. c = Leaf v \<longrightarrow> CTypeTree_to_Structure z (Tup ct) c = Inl (TypeError MismatchInDepth))
   \<and> (\<forall>vs. c = Tup vs \<and> length ct \<noteq> length vs \<longrightarrow>
         CTypeTree_to_Structure z (Tup ct) c = Inl (TypeError MismatchInLength))"
proof -
  have ok: "same_shape (Tup ct) c \<Longrightarrow> \<exists>s. CTypeTree_to_Structure z (Tup ct) c = Inr s"
    using same_shape_to_child_Inr [of "Tup ct" c z] by (simp add: to_child_Tup)
  have err: "shape_mismatch (Tup ct) c = Some r \<Longrightarrow>
      CTypeTree_to_Structure z (Tup ct) c = Inl (TypeError r)" for r
    using shape_mismatch_to_child [of "Tup ct" c r z] by (simp add: to_child_Tup)
  have iff: "same_shape (Tup ct) c \<longleftrightarrow> shape_mismatch (Tup ct) c = None"
    by (simp add: shape_mismatch_None_iff)
  have "(\<exists>s. CTypeTree_to_Structure z (Tup ct) c = Inr s) \<longleftrightarrow> same_shape (Tup ct) c"
  proof
    assume "\<exists>s. CTypeTree_to_Structure z (Tup ct) c = Inr s"
    then show "same_shape (Tup ct) c"
      using err iff by (cases "shape_mismatch (Tup ct) c") auto
  qed (rule ok)
  moreover have "\<forall>v. c = Leaf v \<longrightarrow> CTypeTree_to_Structure z (Tup ct) c = Inl (TypeError MismatchInDepth)"
    by simp
  moreover have "\<forall>vs. c = Tup vs \<and> length ct \<noteq> length vs \<longrightarrow>
         CTypeTree_to_Structure z (Tup ct) c = Inl (TypeError MismatchInLength)"
    by (simp add: CTypeTree_to_Structure_Tup)
  ultimately show ?thesis
    using iff err shape_mismatch_kinds(1) [of "Tup ct" c] by blast
qed

theorem CTypeTree_to_Structure_shape_check_witness:
  "shape_mismatch (Tup [Leaf c_int8, Tup [Leaf c_int8]]) (Tup [Leaf (1::int), Leaf 2]) = Some MismatchInDepth
   \<and> CTypeTree_to_Structure (\<lambda>c. 0) (Tup [Leaf c_int8, Tup [Leaf c_int8]]) (Tup [Leaf (1::int), Leaf 2])
       = Inl (TypeError MismatchInDepth)
   \<and> shape_mismatch (Tup [Leaf c_int8, Tup [Leaf c_int8, Leaf c_int8]]) (Tup [Leaf (1::int), Tup [Leaf 2]])
       = Some MismatchInLength
   \<and> CTypeTree_to_Structure (\<lambda>c. 0) (Tup [Leaf c_int8, Tup [Leaf c_int8, Leaf c_int8]]) (Tup [Leaf (1::int), Tup [Leaf 2]])
       = Inl (TypeError MismatchInLength)
   \<and> CTypeTree_to_Structure (\<lambda>c. 0) (Tup [Leaf c_int8]) (Leaf (1::int)) = Inl (TypeError MismatchInDepth)
   \<and> CTypeTree_to_Structure (\<lambda>c. 0) (Tup [Leaf c_int8]) (Tup [Leaf (1::int), Leaf 2]) = Inl (TypeError MismatchInLength)
   \<and> same_shape (Tup [Leaf c_int8, Tup [Leaf c_int8, Leaf c_int8]]) (Tup [Leaf (1::int), Tup [Leaf 2, Leaf 3]])
   \<and> (\<exists>s. CTypeTree_to_Structure (\<lambda>c. 0) (Tup [Leaf c_int8, Tup [Leaf c_int8, Leaf c_int8]])
            (Tup [Leaf (1::int), Tup [Leaf 2, Leaf 3]]) = Inr s)"
  using CTypeTree_to_Structure_shape_check
      [of "\<lambda>c. 0" "[Leaf c_int8, Tup [Leaf c_int8]]" "Tup [Leaf (1::int), Leaf 2]"]
    CTypeTree_to_Structure_shape_check
      [of "\<lambda>c. 0" "[Leaf c_int8, Tup [Leaf c_int8, Leaf c_int8]]" "Tup [Leaf (1::int), Tup [Leaf 2]]"]
    CTypeTree_to_Structure_shape_check [of "\<lambda>c. 0" "[Leaf c_int8]" "Leaf (1::int)"]
    CTypeTree_to_Structure_shape_check [of "\<lambda>c. 0" "[Leaf c_int8]" "Tup [Leaf (1::int), Leaf 2]"]
    CTypeTree_to_Structure_shape_check
      [of "\<lambda>c. 0" "[Leaf c_int8, Tup [Leaf c_int8, Leaf c_int8]]" "Tup [Leaf (1::int), Tup [Leaf 2, Leaf 3]]"]
  by simp

subsection \<open>The round trip\<close>

text \<open>
  When the tuple \<open>ct\<close> does not collapse to a ctypes type, converting a value of its shape
  to a Structure and back returns the value.
\<close>

lemma roundtrip_composite:
  assumes "same_shape (Tup ct) V" and "stype_of (Tup ct) = StructT key fts"
  shows "\<exists>s. CTypeTree_to_Structure z (Tup ct) V = Inr (Struct s)
           \<and> CTypeTree_from_Structure (Tup ct) (Struct s) = Some (Inr V)"
proof -
  from same_shape_child_ok [OF assms(1), of z] obtain r f where
    r: "to_child z (Tup ct) V = Inr r" and f: "set_field (stype_of (Tup ct)) r = Inr f"
    and rt: "from_field (Tup ct) f = Some (Inr V)"
    unfolding child_ok_def by blast
  from f assms(2) obtain s where s: "r = Struct s" "f = Nested s"
    by (cases r) (auto split: if_splits)
  obtain t' m where st: "strip_member (Tup ct) 0 = (t', m)"
    by (cases "strip_member (Tup ct) 0")
  from rt obtain x where x: "CTypeTree_from_Structure t' (Struct s) = Some (Inr x)" "V = add_shells m x"
    by (auto simp: from_field_def s st split: option.splits sum.splits)
  then obtain us where t': "t' = Tup us" by (cases t') auto
  have "CTypeTree_from_Structure (Tup ct) (Struct s) = Some (Inr V)"
    using from_Structure_stripped [OF st [unfolded t'], of s] x by (simp add: t')
  then show ?thesis using r s by (simp add: to_child_Tup)
qed

text \<open>
  When it does collapse, the conversion returns the plain value, which
  \<^verbatim>\<open>CTypeTree_from_Structure\<close> refuses.
\<close>

lemma roundtrip_scalar:
  assumes "same_shape (Tup ct) V" and "stype_of (Tup ct) = Prim c"
  shows "\<exists>x. CTypeTree_to_Structure z (Tup ct) V = Inr (Plain x)
           \<and> CTypeTree_from_Structure (Tup ct) (Plain x) = Some (Inl (TypeError SMustBeStructure))"
proof -
  from same_shape_child_ok [OF assms(1), of z] obtain r f where
    r: "to_child z (Tup ct) V = Inr r" and f: "set_field (stype_of (Tup ct)) r = Inr f"
    unfolding child_ok_def by blast
  from f assms(2) obtain x where "r = Plain x" by (cases r) auto
  with r show ?thesis by (simp add: to_child_Tup)
qed

subsection \<open>Chains of tuples of length 1\<close>

text \<open>\<open>add_shells n (Leaf x)\<close> is \<open>x\<close> inside \<open>n\<close> tuples of length 1.\<close>

lemma chain_type:
  "CTypeTreeType_to_Structure (add_shells (Suc n) (Leaf x)) = Inr (Prim x)"
proof (induction n)
  case 0
  show ?case by simp
next
  case (Suc n)
  have "add_shells (Suc (Suc n)) (Leaf x) = Tup [add_shells (Suc n) (Leaf x)]"
    by (simp add: add_shells_Tup)
  moreover have "add_shells (Suc n) (Leaf x) = Tup [add_shells n (Leaf x)]"
    by (simp add: add_shells_Tup)
  ultimately show ?case using Suc by simp
qed

lemma chain_same_shape: "same_shape (add_shells n (Leaf x)) (add_shells n (Leaf v))"
proof (induction n)
  case 0
  show ?case by simp
next
  case (Suc n)
  then show ?case by (simp add: add_shells_Tup)
qed

lemma chain_value:
  "CTypeTree_to_Structure z (add_shells (Suc n) (Leaf x)) (add_shells (Suc n) (Leaf v)) = Inr (Plain v)"
proof (induction n)
  case 0
  show ?case by (simp add: CTypeTree_to_Structure_Tup)
next
  case (Suc n)
  have a: "add_shells (Suc (Suc n)) (Leaf x) = Tup [add_shells (Suc n) (Leaf x)]"
    by (simp add: add_shells_Tup)
  have b: "add_shells (Suc (Suc n)) (Leaf v) = Tup [add_shells (Suc n) (Leaf v)]"
    by (simp add: add_shells_Tup)
  have c: "add_shells (Suc n) (Leaf x) = Tup [add_shells n (Leaf x)]"
    by (simp add: add_shells_Tup)
  show ?case
    unfolding a b using Suc by (simp add: CTypeTree_to_Structure_Tup c to_child_Tup del: add_shells.simps)
qed

lemma chain_member:
  "from_field (add_shells n (Leaf x)) (Scalar x v) = Some (Inr (add_shells n (Leaf v)))"
proof (induction n)
  case 0
  show ?case by (simp add: from_field_def)
next
  case (Suc n)
  then show ?case by (simp add: add_shells_Tup from_field_Tup1)
qed

lemma chain_strip_shell: "strip_shell [add_shells n (Leaf x)] k = None"
proof (induction n arbitrary: k)
  case 0
  show ?case by (simp add: strip_shell_Leaf_diverges)
next
  case (Suc n)
  then show ?case by (simp add: add_shells_Tup strip_shell_Tup)
qed

lemma chain_top_diverges:
  "CTypeTree_from_Structure (add_shells (Suc n) (Leaf x)) (Struct s) = None"
proof -
  obtain key fs where s: "s = Structure key fs" by (cases s)
  show ?thesis by (simp add: add_shells_Tup s chain_strip_shell)
qed

text \<open>
  Claim C1. The docstring of \<^verbatim>\<open>CTypeTree_to_Structure\<close> says that converting back after
  converting should yield the identity. For the type tree \<^verbatim>\<open>(c,)\<close> and the value tree
  \<^verbatim>\<open>(v,)\<close>, which have the same shape, \<^verbatim>\<open>CTypeTree_to_Structure\<close> returns the plain value
  \<open>v\<close>, and \<^verbatim>\<open>CTypeTree_from_Structure\<close> raises \<^verbatim>\<open>TypeError\<close> on it instead of returning
  \<^verbatim>\<open>(v,)\<close>.
\<close>

theorem roundtrip_raises_on_collapsed_scalar:
  "same_shape (Tup [Leaf c]) (Tup [Leaf v])
   \<and> CTypeTree_to_Structure z (Tup [Leaf c]) (Tup [Leaf v]) = Inr (Plain v)
   \<and> CTypeTree_from_Structure (Tup [Leaf c]) (Plain v :: ('c, 'v) cvalue)
        = Some (Inl (TypeError SMustBeStructure))
   \<and> CTypeTree_from_Structure (Tup [Leaf c]) (Plain v :: ('c, 'v) cvalue) \<noteq> Some (Inr (Tup [Leaf v]))"
  by (simp add: CTypeTree_to_Structure_Tup)

text \<open>
  Claim C3. The chain \<^verbatim>\<open>(((x,),),)\<close> converts to the type \<open>x\<close> and its value to the plain
  value, as the claim says. The third conversion does not rebuild the nested value:
  \<^verbatim>\<open>CTypeTree_from_Structure\<close> raises \<^verbatim>\<open>TypeError\<close> on the plain value, and on a Structure
  its first loop never ends, since the innermost \<^verbatim>\<open>ct[0]\<close> is not a tuple. (As a member of
  a larger tuple the chain is rebuilt: lemma \<open>chain_member\<close>.)
\<close>

theorem scalar_chain_conversions:
  "CTypeTreeType_to_Structure (Tup [Tup [Tup [Leaf x]]]) = Inr (Prim x)
   \<and> CTypeTree_to_Structure z (Tup [Tup [Tup [Leaf x]]]) (Tup [Tup [Tup [Leaf v]]]) = Inr (Plain v)
   \<and> CTypeTree_from_Structure (Tup [Tup [Tup [Leaf x]]]) (Plain v :: ('c, 'v) cvalue)
        = Some (Inl (TypeError SMustBeStructure))
   \<and> CTypeTree_from_Structure (Tup [Tup [Tup [Leaf x]]]) (Struct s :: ('c, 'v) cvalue) = None"
  using chain_type [of 2 x] chain_value [of z 2 x v] chain_top_diverges [of 2 x s]
  by (simp add: numeral_2_eq_2)

section \<open>Properties of \<^verbatim>\<open>call_function\<close>\<close>

lemma mapM_sum_length: "mapM_sum f xs = Inr ys \<Longrightarrow> length ys = length xs"
  by (induction xs arbitrary: ys) (auto split: sum.splits)

lemma those_length: "those xs = Some ys \<Longrightarrow> length ys = length xs"
  by (induction xs arbitrary: ys) (auto split: option.splits)

text \<open>
  The loop over the fields always ends, and so does \<^verbatim>\<open>CTypeTree_from_Structure\<close> on a
  tuple whose length is not 1.
\<close>

lemma from_Structure_returns:
  "(\<forall>us. ct = Tup us \<longrightarrow> length us \<noteq> 1) \<longrightarrow> CTypeTree_from_Structure ct (s :: ('c, 'v) cvalue) \<noteq> None"
  "from_fields ts (fs :: ('c, 'v) cfield list) \<noteq> None"
proof (induction ct s and ts fs rule: CTypeTree_from_Structure_from_fields.induct)
  case (1 ct v)
  show ?case by simp
next
  case (2 t s)
  show ?case by simp
next
  case (3 ct0 key fs)
  show ?case
  proof
    assume "\<forall>us. Tup ct0 = Tup us \<longrightarrow> length us \<noteq> 1"
    then have stop: "strip_shell ct0 0 = Some (ct0, 0)" by (simp add: strip_shell_stop)
    show "CTypeTree_from_Structure (Tup ct0) (Struct (Structure key fs)) \<noteq> None"
      using 3 [OF stop refl] by (auto simp: stop split: option.splits sum.splits)
  qed
next
  case (4 t0 ts f fs)
  obtain t m where st: "(t, m) = strip_member t0 0" by (metis surj_pair)
  have len: "\<forall>us. t = Tup us \<longrightarrow> length us \<noteq> 1"
    using strip_member_result_length [of t0 0 _ m] st by auto
  define r where "r = (case f of
            Scalar st v \<Rightarrow>
              if t \<noteq> Leaf st
              then Some (Inl (TypeError TypeMismatchFromStructure))
              else Some (Inr (Leaf v))
            | Nested s \<Rightarrow> CTypeTree_from_Structure t (Struct s))"
  have step: "from_fields (t0 # ts) (f # fs) =
      (case r of
         None \<Rightarrow> None
       | Some (Inl e) \<Rightarrow> Some (Inl e)
       | Some (Inr fval) \<Rightarrow>
           (case from_fields ts fs of
              None \<Rightarrow> None
            | Some (Inl e) \<Rightarrow> Some (Inl e)
            | Some (Inr ret) \<Rightarrow> Some (Inr (add_shells m fval # ret))))"
    unfolding r_def from_fields.simps(1) st [symmetric] by simp
  have r_some: "r \<noteq> None"
  proof (cases f)
    case (Scalar st' v)
    then show ?thesis by (simp add: r_def)
  next
    case (Nested s)
    from 4(1) [OF st Nested] len show ?thesis by (simp add: r_def Nested)
  qed
  then obtain x where x: "r = Some x" by auto
  show ?case
  proof (cases x)
    case (Inl e)
    then show ?thesis by (simp add: step x)
  next
    case (Inr b)
    have "from_fields ts fs \<noteq> None"
      using 4(2) [OF st x [unfolded r_def] Inr] .
    then show ?thesis by (auto simp: step x Inr split: sum.splits)
  qed
next
  case (5 fs)
  show ?case by simp
next
  case (6 ts)
  show ?case by (cases ts) simp_all
qed

lemma sum_tuples_all_Tup: "sum_tuples cts = Inr flattened \<Longrightarrow> t \<in> set cts \<Longrightarrow> \<exists>us. t = Tup us"
  by (induction cts arbitrary: flattened rule: sum_tuples.induct) (auto split: sum.splits)

lemma sum_tuples_single: "sum_tuples [t] = Inr flattened \<Longrightarrow> t = Tup flattened"
  by (cases t) auto

lemma sum_tuples_Nil: "sum_tuples cts = Inr flattened \<Longrightarrow> flattened \<noteq> [] \<Longrightarrow> cts \<noteq> []"
  by auto

text \<open>A composite return type has a Structure class, and the first loop ends on it.\<close>

lemma composite_return_struct:
  assumes "sum_tuples ret_ctypes = Inr flattened" and "length flattened > 1"
  shows "\<exists>fts. stype_of (Tup ret_ctypes) = StructT (fst (strip_member (Tup ret_ctypes) 0)) fts"
    and "strip_shell ret_ctypes 0 \<noteq> None"
proof -
  show "\<exists>fts. stype_of (Tup ret_ctypes) = StructT (fst (strip_member (Tup ret_ctypes) 0)) fts"
  proof (cases "length ret_ctypes = 1")
    case True
    then obtain t where t: "ret_ctypes = [t]" by (cases ret_ctypes) auto
    with assms have "t = Tup flattened" by (simp add: sum_tuples_single)
    with assms(2) t show ?thesis by (simp add: stype_of_StructT strip_member_stop)
  next
    case False
    then show ?thesis by (simp add: stype_of_StructT strip_member_stop)
  qed
  show "strip_shell ret_ctypes 0 \<noteq> None"
  proof (cases "length ret_ctypes = 1")
    case True
    then obtain t where t: "ret_ctypes = [t]" by (cases ret_ctypes) auto
    with assms have "t = Tup flattened" by (simp add: sum_tuples_single)
    with assms(2) t show ?thesis by (simp add: strip_shell_Tup strip_shell_stop)
  next
    case False
    then show ?thesis by (simp add: strip_shell_stop)
  qed
qed

lemma from_Structure_composite_returns:
  assumes "sum_tuples ret_ctypes = Inr flattened" and "length flattened > 1"
  shows "CTypeTree_from_Structure (Tup ret_ctypes) s \<noteq> None"
proof (cases s)
  case (Plain v)
  then show ?thesis by simp
next
  case (Struct st)
  obtain key fs where st: "st = Structure key fs" by (cases st)
  from composite_return_struct(2) [OF assms] obtain ct n where
    "strip_shell ret_ctypes 0 = Some (ct, n)" by auto
  then show ?thesis
    using from_Structure_returns(2) [of ct fs]
    by (auto simp: Struct st split: option.splits sum.splits)
qed

lemma read_return_returns:
  assumes "sum_tuples ret_ctypes = Inr flattened" and "length flattened > 1"
  shows "read_return f ret_ctypes s \<noteq> None"
  using from_Structure_composite_returns [OF assms, of s]
  by (auto simp: read_return_def split: option.splits sum.splits)

subsection \<open>The Structures of a class\<close>

lemma field_type_zero_field: "field_type (zero_field z ft) = ft"
  by (induction ft) (simp_all add: map_idI)

lemma fields_are_image:
  assumes "\<And>t f. t \<in> set ts \<Longrightarrow> field_type f = stype_of t \<Longrightarrow>
      \<exists>v r. same_shape t v \<and> to_child z t v = Inr r \<and> set_field (stype_of t) r = Inr f"
    and "map field_type fs = map stype_of ts"
  shows "\<exists>vs rs. list_all2 same_shape ts vs
      \<and> mapM_sum (\<lambda>(t, v). to_child z t v) (zip ts vs) = Inr rs
      \<and> init_fields z (map stype_of ts) rs = Inr fs"
  using assms
proof (induction ts arbitrary: fs)
  case Nil
  then show ?case by simp
next
  case (Cons t ts)
  from Cons.prems(2) obtain f fs' where fs: "fs = f # fs'"
    and f: "field_type f = stype_of t" and fs': "map field_type fs' = map stype_of ts"
    by (cases fs) auto
  from Cons.prems(1) [OF _ f] obtain v r where
    v: "same_shape t v" "to_child z t v = Inr r" "set_field (stype_of t) r = Inr f"
    by auto
  from Cons.IH [OF _ fs'] Cons.prems(1) obtain vs rs where
    vs: "list_all2 same_shape ts vs"
      "mapM_sum (\<lambda>(t, v). to_child z t v) (zip ts vs) = Inr rs"
      "init_fields z (map stype_of ts) rs = Inr fs'"
    by auto
  show ?case
    using v vs by (intro exI [of _ "v # vs"] exI [of _ "r # rs"]) (simp add: fs)
qed

lemma field_is_image:
  "field_type f = stype_of t \<Longrightarrow>
     \<exists>v r. same_shape t v \<and> to_child z t v = Inr r \<and> set_field (stype_of t) r = Inr f"
proof (induction t arbitrary: f)
  case (Leaf c)
  then obtain x where "f = Scalar c x"
    by (cases f) (auto, metis class_of.simps Structure.exhaust stype.distinct(1))
  then show ?case by (intro exI [of _ "Leaf x"] exI [of _ "Plain x"]) simp
next
  case (Tup ts)
  show ?case
  proof (cases "length ts = 1")
    case True
    then obtain t0 where ts: "ts = [t0]" by (cases ts) auto
    from Tup.prems have "field_type f = stype_of t0" by (simp add: ts)
    from Tup.IH [OF _ this] obtain v0 r where
      "same_shape t0 v0" "to_child z t0 v0 = Inr r" "set_field (stype_of t0) r = Inr f"
      by (auto simp: ts)
    then show ?thesis
      by (intro exI [of _ "Tup [v0]"] exI [of _ r])
        (simp add: ts to_child_Tup CTypeTree_to_Structure_Tup)
  next
    case False
    have ty: "stype_of (Tup ts) = StructT (Tup ts) (map stype_of ts)"
      using False by (rule stype_of_StructT)
    from Tup.prems ty obtain fs where f: "f = Nested (Structure (Tup ts) fs)"
      and fs: "map field_type fs = map stype_of ts"
    proof (cases f)
      case (Scalar c x)
      with Tup.prems ty show ?thesis by simp
    next
      case (Nested s)
      obtain key fs where "s = Structure key fs" by (cases s)
      with Nested Tup.prems ty that show ?thesis by simp
    qed
    from fields_are_image [OF Tup.IH fs] obtain vs rs where
      vs: "list_all2 same_shape ts vs"
        "mapM_sum (\<lambda>(t, v). to_child z t v) (zip ts vs) = Inr rs"
        "init_fields z (map stype_of ts) rs = Inr fs"
      by blast
    have len: "length ts = length vs" using vs(1) by (rule list_all2_lengthD)
    have rlen: "length rs = length ts"
      using mapM_sum_length [OF vs(2)] len by simp
    have "to_child z (Tup ts) (Tup vs) = Inr (Struct (Structure (Tup ts) fs))"
      using False len rlen vs
      by (simp add: to_child_Tup CTypeTree_to_Structure_Tup ty instantiate_def)
    moreover have "set_field (stype_of (Tup ts)) (Struct (Structure (Tup ts) fs)) = Inr f"
      using fs by (simp add: ty f)
    ultimately show ?thesis
      using vs(1) by (intro exI [of _ "Tup vs"] exI [of _ "Struct (Structure (Tup ts) fs)"]) simp
  qed
qed

text \<open>
  Every Structure of the class of a tuple \<open>ct\<close> is what \<^verbatim>\<open>CTypeTree_to_Structure\<close> builds
  from some value tree of the shape of \<open>ct\<close>.
\<close>

lemma Structure_is_image:
  assumes "class_of s = stype_of (Tup ct)"
  shows "\<exists>V. same_shape (Tup ct) V \<and> CTypeTree_to_Structure z (Tup ct) V = Inr (Struct s)"
proof -
  have "field_type (Nested s) = stype_of (Tup ct)" using assms by simp
  from field_is_image [OF this, of z] obtain v r where
    v: "same_shape (Tup ct) v" "to_child z (Tup ct) v = Inr r"
    "set_field (stype_of (Tup ct)) r = Inr (Nested s)"
    by blast
  from v(3) have "r = Struct s"
    by (cases "(stype_of (Tup ct), r)" rule: set_field.cases) (auto split: if_splits)
  with v show ?thesis by (auto simp: to_child_Tup)
qed

text \<open>Reading back what was built from a value tree gives the value tree.\<close>

lemma from_Structure_of_image:
  assumes "CTypeTree_to_Structure z (Tup ct) V = Inr w"
    and "stype_of (Tup ct) = StructT key fts"
  shows "CTypeTree_from_Structure (Tup ct) w = Some (Inr V) \<and> same_shape (Tup ct) V"
proof -
  have shape: "same_shape (Tup ct) V"
  proof (cases "shape_mismatch (Tup ct) V")
    case None
    then show ?thesis by (simp add: shape_mismatch_None_iff)
  next
    case (Some r)
    from shape_mismatch_to_child [OF Some, of z] assms(1) show ?thesis
      by (simp add: to_child_Tup)
  qed
  from roundtrip_composite [OF shape assms(2), of z] assms(1) show ?thesis
    using shape by auto
qed

text \<open>
  For a composite return: when the return Structure is what \<^verbatim>\<open>CTypeTree_to_Structure\<close>
  builds from a value tree, the result is the tuple of \<^verbatim>\<open>from_CType\<close> of each return type
  on the member of that tree at its position.
\<close>

lemma read_return_of_image:
  assumes "CTypeTree_to_Structure z (Tup ret_ctypes) V = Inr w"
    and "stype_of (Tup ret_ctypes) = StructT key fts"
    and "get_return_ctypes f = Inr ret_ctypes"
  shows "\<exists>vs ret_t. V = Tup vs \<and> get_return_type f = Inr ret_t \<and> length ret_t = length vs
      \<and> read_return f ret_ctypes w =
          Some (case mapM_sum (\<lambda>(t, ct). val_from_CType t ct) (zip ret_t vs) of
                  Inl e \<Rightarrow> Inl e
                | Inr vals \<Rightarrow> Inr (ResultTuple vals))"
proof -
  from from_Structure_of_image [OF assms(1,2)] have
    rd: "CTypeTree_from_Structure (Tup ret_ctypes) w = Some (Inr V)"
    and shape: "same_shape (Tup ret_ctypes) V" by auto
  from shape obtain vs where V: "V = Tup vs" and len: "length vs = length ret_ctypes"
    by (cases V) (auto dest: list_all2_lengthD)
  from assms(3) obtain ret_t tys where rt: "get_return_type f = Inr ret_t"
    and tys: "those ret_t = Some tys" and cts: "mapM_sum CType tys = Inr ret_ctypes"
    by (auto simp: get_return_ctypes_def split: sum.splits option.splits)
  have "length ret_t = length vs"
    using mapM_sum_length [OF cts] those_length [OF tys] len by simp
  then show ?thesis
    using V rt by (simp add: read_return_def rd)
qed

lemma read_return_of_class:
  assumes "class_of s = StructT key fts"
    and "stype_of (Tup ret_ctypes) = StructT key fts"
    and "get_return_ctypes f = Inr ret_ctypes"
  shows "\<exists>vs ret_t. CTypeTree_to_Structure z (Tup ret_ctypes) (Tup vs) = Inr (Struct s)
      \<and> get_return_type f = Inr ret_t \<and> length ret_t = length vs
      \<and> read_return f ret_ctypes (Struct s) =
          Some (case mapM_sum (\<lambda>(t, ct). val_from_CType t ct) (zip ret_t vs) of
                  Inl e \<Rightarrow> Inl e
                | Inr vals \<Rightarrow> Inr (ResultTuple vals))"
proof -
  from Structure_is_image [of s ret_ctypes z] assms(1,2) obtain V where
    V: "CTypeTree_to_Structure z (Tup ret_ctypes) V = Inr (Struct s)" by auto
  from read_return_of_image [OF V assms(2,3)] V show ?thesis by auto
qed

text \<open>
  Claim C8. Before the target has its library, \<^verbatim>\<open>call_function\<close> raises \<^verbatim>\<open>RuntimeError\<close>
  (called before it is compiled) and makes no native call. With the library, and the symbol
  loaded, a number of arguments other than the number of parameters raises \<^verbatim>\<open>TypeError\<close>
  with both numbers, again before any native call.
\<close>

theorem call_function_usage_errors:
  "(so self = None \<longrightarrow>
      call_function z self f args = (Some (Inl (RuntimeError (CalledBeforeCompiled (f_name f)))), []))
   \<and> (so self \<noteq> None \<and> (\<exists>so_f. load_function self f = Inr so_f)
        \<and> length (parameters f) \<noteq> length args \<longrightarrow>
      call_function z self f args =
        (Some (Inl (TypeError (WrongArgumentCount (f_name f) (length (parameters f)) (length args)))), []))"
  by (auto simp: call_function_def)

text \<open>
  Claim C2. For a call that gets as far as the native call (library built, symbol loaded,
  right number of arguments, arguments marshalled), by the length of the flattened return
  ctypes:
  \<^item> more than 1: \<^verbatim>\<open>restype\<close> is \<^verbatim>\<open>None\<close>, the first of \<^verbatim>\<open>argtypes\<close> is the pointer to the
    return Structure class, the one native call has a new Structure of that class with every
    field zero in front of the user's arguments, and the result is read from that Structure
    as the callee leaves it; the call returns. What is read: a Structure of the return class
    is what \<^verbatim>\<open>CTypeTree_to_Structure\<close> builds from the return ctypes and one tuple of value
    trees, one for each return type; the result is the tuple of \<^verbatim>\<open>from_CType\<close> of each return
    type on its value tree, or the first exception that one of them raises. So a single
    return type whose CType has several members gets all of them, in one tuple;
  \<^item> exactly 1: \<^verbatim>\<open>restype\<close> is set, the one native call has the user's arguments only, and
    the result is \<^verbatim>\<open>from_CType\<close> of the first return type on the value it returns;
  \<^item> 0: the result is \<^verbatim>\<open>None\<close>, whatever the native call returns.
\<close>

theorem call_function_return_convention:
  assumes built: "so self = Some library"
    and loaded: "load_function self f = Inr so_f"
    and arity: "length (parameters f) = length args"
    and marshalled: "marshal_args z f args = Inr mapped_args"
    and ret: "get_return_ctypes f = Inr ret_ctypes"
    and flat: "sum_tuples ret_ctypes = Inr flattened"
  shows
    "(length flattened > 1 \<longrightarrow>
        restype so_f = None
        \<and> (\<exists>key fts ats.
              CTypeTreeType_to_Structure (Tup ret_ctypes) = Inr (StructT key fts)
              \<and> argtypes so_f = POINTER (StructT key fts) # ats
              \<and> length ats = length (parameters f)
              \<and> call_function z self f args =
                  (read_return f ret_ctypes
                     (case snd (entry so_f (Struct (Structure key (map (zero_field z) fts)) # mapped_args)) of
                        [] \<Rightarrow> Struct (Structure key (map (zero_field z) fts))
                      | r # rest \<Rightarrow> r),
                   [Struct (Structure key (map (zero_field z) fts)) # mapped_args])
              \<and> fst (call_function z self f args) \<noteq> None
              \<and> class_of (Structure key (map (zero_field z) fts)) = StructT key fts
              \<and> (\<forall>s. (case snd (entry so_f (Struct (Structure key (map (zero_field z) fts)) # mapped_args)) of
                         [] \<Rightarrow> Struct (Structure key (map (zero_field z) fts))
                       | r # rest \<Rightarrow> r) = Struct s
                      \<and> class_of s = StructT key fts \<longrightarrow>
                    (\<exists>vs ret_t.
                        CTypeTree_to_Structure z (Tup ret_ctypes) (Tup vs) = Inr (Struct s)
                        \<and> get_return_type f = Inr ret_t
                        \<and> length ret_t = length vs
                        \<and> fst (call_function z self f args) =
                            Some (case mapM_sum (\<lambda>(t, ct). val_from_CType t ct) (zip ret_t vs) of
                                    Inl e \<Rightarrow> Inl e
                                  | Inr vals \<Rightarrow> Inr (ResultTuple vals))))
              \<and> (\<forall>V. CTypeTree_to_Structure z (Tup ret_ctypes) V =
                        Inr (case snd (entry so_f (Struct (Structure key (map (zero_field z) fts)) # mapped_args)) of
                               [] \<Rightarrow> Struct (Structure key (map (zero_field z) fts))
                             | r # rest \<Rightarrow> r) \<longrightarrow>
                    (\<exists>vs ret_t.
                        V = Tup vs
                        \<and> get_return_type f = Inr ret_t
                        \<and> length ret_t = length vs
                        \<and> fst (call_function z self f args) =
                            Some (case mapM_sum (\<lambda>(t, ct). val_from_CType t ct) (zip ret_t vs) of
                                    Inl e \<Rightarrow> Inl e
                                  | Inr vals \<Rightarrow> Inr (ResultTuple vals))))))
     \<and> (length flattened = 1 \<longrightarrow>
        (\<exists>rt. restype so_f = Some rt)
        \<and> length (argtypes so_f) = length (parameters f)
        \<and> (\<exists>t ts. get_return_type f = Inr (t # ts)
              \<and> call_function z self f args =
                  (Some (case val_from_CType t (Tup [Leaf (fst (entry so_f mapped_args))]) of
                           Inl e \<Rightarrow> Inl e
                         | Inr v \<Rightarrow> Inr (ResultValue v)),
                   [mapped_args])))
     \<and> (length flattened = 0 \<longrightarrow>
        call_function z self f args = (Some (Inr ResultNone), [mapped_args]))"
proof -
  have void: "has_void_return f = Inr (length flattened = 0)"
    by (simp add: has_void_return_def ret flat)
  have comp: "has_composite_return f = Inr (length flattened > 1)"
    by (simp add: has_composite_return_def ret flat)
  from loaded obtain args_ctypes args_struct code where
    actypes: "get_args_ctypes f = Inr args_ctypes"
    and astruct: "mapM_sum CTypeTreeType_to_Structure args_ctypes = Inr args_struct"
    and so_f: "so_f = (if length flattened > 1
        then \<lparr>restype = None,
              argtypes = by_pointer_if_Structure (stype_of (Tup ret_ctypes))
                           # map by_pointer_if_Structure args_struct,
              entry = code\<rparr>
        else \<lparr>restype = Some (by_pointer_if_Structure (stype_of (Tup ret_ctypes))),
              argtypes = map by_pointer_if_Structure args_struct,
              entry = code\<rparr>)"
    by (auto simp: load_function_def ret comp built CTypeTreeType_to_Structure_Tup
        split: sum.splits option.splits if_splits)
  have alen: "length args_struct = length (parameters f)"
    using actypes astruct
    by (auto simp: get_args_ctypes_def split: option.splits dest!: mapM_sum_length those_length)
  have c0: "length flattened = 0 \<longrightarrow>
        call_function z self f args = (Some (Inr ResultNone), [mapped_args])"
    by (simp add: call_function_def built loaded arity marshalled void)
  have c1: "length flattened = 1 \<longrightarrow>
        (\<exists>rt. restype so_f = Some rt)
        \<and> length (argtypes so_f) = length (parameters f)
        \<and> (\<exists>t ts. get_return_type f = Inr (t # ts)
              \<and> call_function z self f args =
                  (Some (case val_from_CType t (Tup [Leaf (fst (entry so_f mapped_args))]) of
                           Inl e \<Rightarrow> Inl e
                         | Inr v \<Rightarrow> Inr (ResultValue v)),
                   [mapped_args]))"
  proof
    assume one: "length flattened = 1"
    from ret obtain ret_t tys where rt: "get_return_type f = Inr ret_t"
      and tys: "those ret_t = Some tys" and cts: "mapM_sum CType tys = Inr ret_ctypes"
      by (auto simp: get_return_ctypes_def split: sum.splits option.splits)
    have "ret_ctypes \<noteq> []" using flat one by auto
    then have "ret_t \<noteq> []"
      using mapM_sum_length [OF cts] those_length [OF tys] by auto
    then obtain t ts where ret_t: "ret_t = t # ts" by (cases ret_t) auto
    have call: "call_function z self f args =
                  (Some (case val_from_CType t (Tup [Leaf (fst (entry so_f mapped_args))]) of
                           Inl e \<Rightarrow> Inl e
                         | Inr v \<Rightarrow> Inr (ResultValue v)),
                   [mapped_args])"
      using one
      by (simp add: call_function_def built loaded arity marshalled void comp rt ret_t
          split: sum.splits)
    show "(\<exists>rt. restype so_f = Some rt)
        \<and> length (argtypes so_f) = length (parameters f)
        \<and> (\<exists>t ts. get_return_type f = Inr (t # ts)
              \<and> call_function z self f args =
                  (Some (case val_from_CType t (Tup [Leaf (fst (entry so_f mapped_args))]) of
                           Inl e \<Rightarrow> Inl e
                         | Inr v \<Rightarrow> Inr (ResultValue v)),
                   [mapped_args]))"
      using one so_f alen rt ret_t call by simp
  qed
  have c2: "length flattened > 1 \<longrightarrow>
        restype so_f = None
        \<and> (\<exists>key fts ats.
              CTypeTreeType_to_Structure (Tup ret_ctypes) = Inr (StructT key fts)
              \<and> argtypes so_f = POINTER (StructT key fts) # ats
              \<and> length ats = length (parameters f)
              \<and> call_function z self f args =
                  (read_return f ret_ctypes
                     (case snd (entry so_f (Struct (Structure key (map (zero_field z) fts)) # mapped_args)) of
                        [] \<Rightarrow> Struct (Structure key (map (zero_field z) fts))
                      | r # rest \<Rightarrow> r),
                   [Struct (Structure key (map (zero_field z) fts)) # mapped_args])
              \<and> fst (call_function z self f args) \<noteq> None
              \<and> class_of (Structure key (map (zero_field z) fts)) = StructT key fts
              \<and> (\<forall>s. (case snd (entry so_f (Struct (Structure key (map (zero_field z) fts)) # mapped_args)) of
                         [] \<Rightarrow> Struct (Structure key (map (zero_field z) fts))
                       | r # rest \<Rightarrow> r) = Struct s
                      \<and> class_of s = StructT key fts \<longrightarrow>
                    (\<exists>vs ret_t.
                        CTypeTree_to_Structure z (Tup ret_ctypes) (Tup vs) = Inr (Struct s)
                        \<and> get_return_type f = Inr ret_t
                        \<and> length ret_t = length vs
                        \<and> fst (call_function z self f args) =
                            Some (case mapM_sum (\<lambda>(t, ct). val_from_CType t ct) (zip ret_t vs) of
                                    Inl e \<Rightarrow> Inl e
                                  | Inr vals \<Rightarrow> Inr (ResultTuple vals))))
              \<and> (\<forall>V. CTypeTree_to_Structure z (Tup ret_ctypes) V =
                        Inr (case snd (entry so_f (Struct (Structure key (map (zero_field z) fts)) # mapped_args)) of
                               [] \<Rightarrow> Struct (Structure key (map (zero_field z) fts))
                             | r # rest \<Rightarrow> r) \<longrightarrow>
                    (\<exists>vs ret_t.
                        V = Tup vs
                        \<and> get_return_type f = Inr ret_t
                        \<and> length ret_t = length vs
                        \<and> fst (call_function z self f args) =
                            Some (case mapM_sum (\<lambda>(t, ct). val_from_CType t ct) (zip ret_t vs) of
                                    Inl e \<Rightarrow> Inl e
                                  | Inr vals \<Rightarrow> Inr (ResultTuple vals)))))"
  proof
    assume many: "length flattened > 1"
    from composite_return_struct(1) [OF flat many] obtain key fts where
      K: "stype_of (Tup ret_ctypes) = StructT key fts" by blast
    have inst: "instantiate z (StructT key fts) [] = Inr (Struct (Structure key (map (zero_field z) fts)))"
      by (simp add: instantiate_def)
    have ne: "flattened \<noteq> []" using many by auto
    let ?retval = "Struct (Structure key (map (zero_field z) fts))"
    let ?written = "case snd (entry so_f (?retval # mapped_args)) of [] \<Rightarrow> ?retval | r # rest \<Rightarrow> r"
    have call: "call_function z self f args =
        (read_return f ret_ctypes ?written, [?retval # mapped_args])"
      using many ne
      by (simp add: call_function_def built loaded arity marshalled void comp ret
          CTypeTreeType_to_Structure_Tup K inst Let_def)
    have fst_call: "fst (call_function z self f args) = read_return f ret_ctypes ?written"
      by (simp add: call)
    have zero_class: "class_of (Structure key (map (zero_field z) fts)) = StructT key fts"
      by (simp add: field_type_zero_field map_idI)
    have by_class: "\<forall>s. ?written = Struct s \<and> class_of s = StructT key fts \<longrightarrow>
                    (\<exists>vs ret_t.
                        CTypeTree_to_Structure z (Tup ret_ctypes) (Tup vs) = Inr (Struct s)
                        \<and> get_return_type f = Inr ret_t
                        \<and> length ret_t = length vs
                        \<and> fst (call_function z self f args) =
                            Some (case mapM_sum (\<lambda>(t, ct). val_from_CType t ct) (zip ret_t vs) of
                                    Inl e \<Rightarrow> Inl e
                                  | Inr vals \<Rightarrow> Inr (ResultTuple vals)))"
      using read_return_of_class [OF _ K ret, of _ z] unfolding fst_call by metis
    have by_value: "\<forall>V. CTypeTree_to_Structure z (Tup ret_ctypes) V = Inr ?written \<longrightarrow>
                    (\<exists>vs ret_t.
                        V = Tup vs
                        \<and> get_return_type f = Inr ret_t
                        \<and> length ret_t = length vs
                        \<and> fst (call_function z self f args) =
                            Some (case mapM_sum (\<lambda>(t, ct). val_from_CType t ct) (zip ret_t vs) of
                                    Inl e \<Rightarrow> Inl e
                                  | Inr vals \<Rightarrow> Inr (ResultTuple vals)))"
      using read_return_of_image [OF _ K ret, of z] unfolding fst_call by blast
    have "fst (call_function z self f args) \<noteq> None"
      using read_return_returns [OF flat many] by (simp add: call)
    moreover have "restype so_f = None"
      using many so_f by simp
    moreover have "argtypes so_f = POINTER (StructT key fts) # map by_pointer_if_Structure args_struct"
      using many so_f by (simp add: K by_pointer_if_Structure_def)
    ultimately show "restype so_f = None
        \<and> (\<exists>key fts ats.
              CTypeTreeType_to_Structure (Tup ret_ctypes) = Inr (StructT key fts)
              \<and> argtypes so_f = POINTER (StructT key fts) # ats
              \<and> length ats = length (parameters f)
              \<and> call_function z self f args =
                  (read_return f ret_ctypes
                     (case snd (entry so_f (Struct (Structure key (map (zero_field z) fts)) # mapped_args)) of
                        [] \<Rightarrow> Struct (Structure key (map (zero_field z) fts))
                      | r # rest \<Rightarrow> r),
                   [Struct (Structure key (map (zero_field z) fts)) # mapped_args])
              \<and> fst (call_function z self f args) \<noteq> None
              \<and> class_of (Structure key (map (zero_field z) fts)) = StructT key fts
              \<and> (\<forall>s. (case snd (entry so_f (Struct (Structure key (map (zero_field z) fts)) # mapped_args)) of
                         [] \<Rightarrow> Struct (Structure key (map (zero_field z) fts))
                       | r # rest \<Rightarrow> r) = Struct s
                      \<and> class_of s = StructT key fts \<longrightarrow>
                    (\<exists>vs ret_t.
                        CTypeTree_to_Structure z (Tup ret_ctypes) (Tup vs) = Inr (Struct s)
                        \<and> get_return_type f = Inr ret_t
                        \<and> length ret_t = length vs
                        \<and> fst (call_function z self f args) =
                            Some (case mapM_sum (\<lambda>(t, ct). val_from_CType t ct) (zip ret_t vs) of
                                    Inl e \<Rightarrow> Inl e
                                  | Inr vals \<Rightarrow> Inr (ResultTuple vals))))
              \<and> (\<forall>V. CTypeTree_to_Structure z (Tup ret_ctypes) V =
                        Inr (case snd (entry so_f (Struct (Structure key (map (zero_field z) fts)) # mapped_args)) of
                               [] \<Rightarrow> Struct (Structure key (map (zero_field z) fts))
                             | r # rest \<Rightarrow> r) \<longrightarrow>
                    (\<exists>vs ret_t.
                        V = Tup vs
                        \<and> get_return_type f = Inr ret_t
                        \<and> length ret_t = length vs
                        \<and> fst (call_function z self f args) =
                            Some (case mapM_sum (\<lambda>(t, ct). val_from_CType t ct) (zip ret_t vs) of
                                    Inl e \<Rightarrow> Inl e
                                  | Inr vals \<Rightarrow> Inr (ResultTuple vals)))))"
      using call alen K many zero_class by_class by_value
      by (intro conjI exI [of _ key] exI [of _ fts] exI [of _ "map by_pointer_if_Structure args_struct"])
        (simp_all add: CTypeTreeType_to_Structure_Tup)
  qed
  show ?thesis using c0 c1 c2 by blast
qed

lemmas example_defs =
  SInt32_def UInt8_def example_target_def nothing_f_def succ_f_def pair_f_def
  Int_SupportsCType_def Int_CType_def ctypes_map_def Int_to_CType_def Int_from_CType_def
  get_return_type_def get_return_ctypes_def get_args_ctypes_def has_composite_return_def
  has_void_return_def load_function_def marshal_args_def val_to_CType_def val_from_CType_def
  by_pointer_if_Structure_def CTypeTree_to_Structure_Tup

lemma load_succ:
  "load_function example_target succ_f =
     Inr \<lparr>restype = Some (ByValue (Prim c_int32)), argtypes = [ByValue (Prim c_int32)],
          entry = example_native\<rparr>"
  by (simp add: example_defs)

lemma load_nothing:
  "load_function example_target nothing_f =
     Inr \<lparr>restype = Some (POINTER (StructT (Tup []) [])), argtypes = [ByValue (Prim c_int32)],
          entry = example_native\<rparr>"
  by (simp add: example_defs)

lemma load_pair:
  "load_function example_target pair_f =
     Inr \<lparr>restype = None,
          argtypes = [POINTER (StructT (Tup [Tup [Leaf c_int32], Tup [Leaf c_uint8]])
                        [Prim c_int32, Prim c_uint8]), ByValue (Prim c_int32)],
          entry = example_native\<rparr>"
  by (simp add: example_defs)

lemma marshal_5:
  "marshal_args (\<lambda>c. 0) succ_f [PyInt 5] = Inr [Plain 5]"
  "marshal_args (\<lambda>c. 0) nothing_f [PyInt 5] = Inr [Plain 5]"
  "marshal_args (\<lambda>c. 0) pair_f [PyInt 5] = Inr [Plain 5]"
  by (simp_all add: example_defs)

lemmas total_defs = total_target_def total_f_def Pair32_SupportsCType_def

lemma load_total:
  "load_function total_target total_f =
     Inr \<lparr>restype = None,
          argtypes = [POINTER (StructT (Tup [Leaf c_int32, Leaf c_int32])
                        [Prim c_int32, Prim c_int32]), ByValue (Prim c_int32)],
          entry = total_native\<rparr>"
  by (simp add: example_defs total_defs)

lemma marshal_3:
  "marshal_args (\<lambda>c. 0) total_f [PyInt 3] = Inr [Plain 3]"
  by (simp add: example_defs total_defs)

lemma total_image:
  "CTypeTree_to_Structure (\<lambda>c. 0) (Tup [Tup [Leaf c_int32, Leaf c_int32]]) (Tup [Tup [Leaf 3, Leaf 4]])
     = Inr (Struct (Structure (Tup [Leaf c_int32, Leaf c_int32])
                      [Scalar c_int32 (3 :: int), Scalar c_int32 4]))"
  by (simp add: CTypeTree_to_Structure_Tup instantiate_def)

theorem call_function_usage_errors_witness:
  "call_function (\<lambda>c. 0) \<lparr>so = None\<rparr> succ_f [PyInt 5]
     = (Some (Inl (RuntimeError (CalledBeforeCompiled ''succ''))), [])
   \<and> call_function (\<lambda>c. 0) example_target succ_f [PyInt 5, PyInt 6]
     = (Some (Inl (TypeError (WrongArgumentCount ''succ'' 1 2))), [])"
proof -
  have 1: "so (\<lparr>so = None\<rparr> :: (ctype, int) CTarget) = None" by simp
  have 2: "so example_target \<noteq> None \<and> (\<exists>so_f. load_function example_target succ_f = Inr so_f)
      \<and> length (parameters succ_f) \<noteq> length [PyInt 5, PyInt 6]"
    by (simp add: load_succ) (simp add: example_target_def succ_f_def)
  show ?thesis
    using call_function_usage_errors [of "\<lparr>so = None\<rparr>" "\<lambda>c. 0" succ_f "[PyInt 5]"] 1
      call_function_usage_errors [of example_target "\<lambda>c. 0" succ_f "[PyInt 5, PyInt 6]"] 2
    by (simp add: succ_f_def)
qed

theorem call_function_return_convention_witness:
  "call_function (\<lambda>c. 0) example_target pair_f [PyInt 5]
     = (Some (Inr (ResultTuple [PyInt 6, PyInt 1])),
        [[Struct (Structure (Tup [Tup [Leaf c_int32], Tup [Leaf c_uint8]])
                   [Scalar c_int32 0, Scalar c_uint8 0]), Plain 5]])
   \<and> call_function (\<lambda>c. 0) example_target succ_f [PyInt 5]
     = (Some (Inr (ResultValue (PyInt 6))), [[Plain 5]])
   \<and> call_function (\<lambda>c. 0) example_target nothing_f [PyInt 5]
     = (Some (Inr ResultNone), [[Plain 5]])
   \<and> call_function (\<lambda>c. 0) total_target total_f [PyInt 3]
     = (Some (Inr (ResultTuple [PyInt 7])),
        [[Struct (Structure (Tup [Leaf c_int32, Leaf c_int32])
                   [Scalar c_int32 0, Scalar c_int32 0]), Plain 3]])"
proof -
  have built: "so example_target =
      Some [''_mlir_ciface_nothing'' \<mapsto> example_native,
            ''_mlir_ciface_succ'' \<mapsto> example_native,
            ''_mlir_ciface_pair'' \<mapsto> example_native]"
    by (simp add: example_target_def)
  have pair: "call_function (\<lambda>c. 0) example_target pair_f [PyInt 5]
     = (Some (Inr (ResultTuple [PyInt 6, PyInt 1])),
        [[Struct (Structure (Tup [Tup [Leaf c_int32], Tup [Leaf c_uint8]])
                   [Scalar c_int32 0, Scalar c_uint8 0]), Plain 5]])"
  proof -
    have rc: "get_return_ctypes pair_f = Inr [Tup [Leaf c_int32], Tup [Leaf c_uint8]]"
      by (simp add: example_defs)
    have fl: "sum_tuples [Tup [Leaf c_int32], Tup [Leaf c_uint8]] = Inr [Leaf c_int32, Leaf c_uint8]"
      by simp
    have ar: "length (parameters pair_f) = length [PyInt 5]"
      by (simp add: pair_f_def)
    have rt: "get_return_type pair_f = Inr [Some (Int_SupportsCType SInt32), Some (Int_SupportsCType UInt8)]"
      by (simp add: pair_f_def get_return_type_def)
    show ?thesis
      using call_function_return_convention [OF built load_pair ar marshal_5(3) rc fl]
      by (simp add: example_native_def read_return_def strip_shell_stop from_fields.simps rt
          val_from_CType_def Int_SupportsCType_def Int_from_CType_def)
  qed
  have succ: "call_function (\<lambda>c. 0) example_target succ_f [PyInt 5]
     = (Some (Inr (ResultValue (PyInt 6))), [[Plain 5]])"
  proof -
    have rc: "get_return_ctypes succ_f = Inr [Tup [Leaf c_int32]]"
      by (simp add: example_defs)
    have fl: "sum_tuples [Tup [Leaf c_int32]] = Inr [Leaf c_int32]"
      by simp
    have ar: "length (parameters succ_f) = length [PyInt 5]"
      by (simp add: succ_f_def)
    have rt: "get_return_type succ_f = Inr [Some (Int_SupportsCType SInt32)]"
      by (simp add: succ_f_def get_return_type_def)
    show ?thesis
      using call_function_return_convention [OF built load_succ ar marshal_5(1) rc fl]
      by (simp add: example_native_def rt val_from_CType_def Int_SupportsCType_def Int_from_CType_def)
  qed
  have void_call: "call_function (\<lambda>c. 0) example_target nothing_f [PyInt 5]
     = (Some (Inr ResultNone), [[Plain 5]])"
  proof -
    have rc: "get_return_ctypes nothing_f = Inr []"
      by (simp add: example_defs)
    have fl: "sum_tuples ([] :: ctype tree list) = Inr []"
      by simp
    have ar: "length (parameters nothing_f) = length [PyInt 5]"
      by (simp add: nothing_f_def)
    show ?thesis
      using call_function_return_convention [OF built load_nothing ar marshal_5(2) rc fl]
      by simp
  qed
  have total: "call_function (\<lambda>c. 0) total_target total_f [PyInt 3]
     = (Some (Inr (ResultTuple [PyInt 7])),
        [[Struct (Structure (Tup [Leaf c_int32, Leaf c_int32])
                   [Scalar c_int32 0, Scalar c_int32 0]), Plain 3]])"
  proof -
    have built_total: "so total_target = Some [''_mlir_ciface_total'' \<mapsto> total_native]"
      by (simp add: total_target_def)
    have rc: "get_return_ctypes total_f = Inr [Tup [Leaf c_int32, Leaf c_int32]]"
      by (simp add: example_defs total_defs)
    have fl: "sum_tuples [Tup [Leaf c_int32, Leaf c_int32]] = Inr [Leaf c_int32, Leaf c_int32]"
      by simp
    have ar: "length (parameters total_f) = length [PyInt 3]"
      by (simp add: total_f_def)
    have rt: "get_return_type total_f = Inr [Some Pair32_SupportsCType]"
      by (simp add: total_f_def get_return_type_def)
    note conv = call_function_return_convention [OF built_total load_total ar marshal_3 rc fl]
    from conv have call: "call_function (\<lambda>c. 0) total_target total_f [PyInt 3] =
        (read_return total_f [Tup [Leaf c_int32, Leaf c_int32]]
           (Struct (Structure (Tup [Leaf c_int32, Leaf c_int32]) [Scalar c_int32 3, Scalar c_int32 4])),
         [[Struct (Structure (Tup [Leaf c_int32, Leaf c_int32])
                     [Scalar c_int32 0, Scalar c_int32 0]), Plain 3]])"
      by (simp add: total_native_def)
    from conv have rd: "\<forall>V. CTypeTree_to_Structure (\<lambda>c. 0) (Tup [Tup [Leaf c_int32, Leaf c_int32]]) V =
            Inr (Struct (Structure (Tup [Leaf c_int32, Leaf c_int32]) [Scalar c_int32 3, Scalar c_int32 4])) \<longrightarrow>
          (\<exists>vs ret_t. V = Tup vs \<and> get_return_type total_f = Inr ret_t \<and> length ret_t = length vs
             \<and> read_return total_f [Tup [Leaf c_int32, Leaf c_int32]]
                  (Struct (Structure (Tup [Leaf c_int32, Leaf c_int32]) [Scalar c_int32 3, Scalar c_int32 4])) =
                 Some (case mapM_sum (\<lambda>(t, ct). val_from_CType t ct) (zip ret_t vs) of
                         Inl e \<Rightarrow> Inl e
                       | Inr vals \<Rightarrow> Inr (ResultTuple vals)))"
      by (simp add: total_native_def) (elim conjE, simp)
    from rd total_image have "read_return total_f [Tup [Leaf c_int32, Leaf c_int32]]
        (Struct (Structure (Tup [Leaf c_int32, Leaf c_int32]) [Scalar c_int32 3, Scalar c_int32 4]))
        = Some (Inr (ResultTuple [PyInt 7]))"
      by (auto simp: rt val_from_CType_def Pair32_SupportsCType_def)
    with call show ?thesis by simp
  qed
  show ?thesis using pair succ void_call total by simp
qed

end
